theory Spec2Isabelle
  imports Complex_Main "HOL-Library.Sublist"
begin

section \<open>Text and bytes\<close>

text \<open>
  The connection handles two kinds of text. A Python \<open>bytes\<close> value is a list of
  8-bit characters, which is what \<^typ>\<open>string\<close> is. A Python \<open>str\<close> is a sequence
  of Unicode code points, which do not fit into 8 bits, so it is a list of naturals;
  \<open>ord\<close> is then the identity.
\<close>

type_synonym bytes = string
type_synonym pystr = "nat list"

definition text_of :: "string \<Rightarrow> pystr" where
  "text_of s = map of_char s"

subsection \<open>\<open>QubeConnection._string_sanitization\<close>\<close>

text \<open>
  \<^verbatim>\<open>return ''.join([c for c in line if 0x20 <= ord(c) <= 0x7e])\<close>
\<close>

definition string_sanitization :: "pystr \<Rightarrow> pystr" where
  "string_sanitization line = concat (map (\<lambda>c. [c]) [c \<leftarrow> line. 0x20 \<le> c \<and> c \<le> 0x7e])"

subsection \<open>\<open>str.splitlines\<close> and \<open>bytes.decode('ascii', errors='ignore')\<close>\<close>

text \<open>
  The line boundaries of \<open>str.splitlines\<close>: LF, VT, FF, CR, FS, GS, RS, NEL, LS and PS,
  with CR LF counting as one boundary. A final line without a boundary is kept, and no
  empty line is added after a final boundary.
\<close>

definition line_boundary :: "nat \<Rightarrow> bool" where
  "line_boundary c \<longleftrightarrow> c \<in> {0x0a, 0x0b, 0x0c, 0x0d, 0x1c, 0x1d, 0x1e, 0x85, 0x2028, 0x2029}"

fun splitlines_from :: "pystr \<Rightarrow> pystr \<Rightarrow> pystr list" where
  "splitlines_from cur [] = (if cur = [] then [] else [cur])"
| "splitlines_from cur [c] = (if line_boundary c then [cur] else [cur @ [c]])"
| "splitlines_from cur (c # d # cs) =
     (if c = 0x0d \<and> d = 0x0a then cur # splitlines_from [] cs
      else if line_boundary c then cur # splitlines_from [] (d # cs)
      else splitlines_from (cur @ [c]) (d # cs))"

definition splitlines :: "pystr \<Rightarrow> pystr list" where
  "splitlines s = splitlines_from [] s"

text \<open>With \<open>errors='ignore'\<close> every byte outside ASCII is dropped and nothing is raised.\<close>

definition decode_ascii_ignore :: "bytes \<Rightarrow> pystr" where
  "decode_ascii_ignore b = [of_char c. c \<leftarrow> b, (of_char c :: nat) < 0x80]"

subsection \<open>\<open>QubeConnection._collect_output\<close>\<close>

definition collect_output :: "bytes \<Rightarrow> bytes \<Rightarrow> pystr list" where
  "collect_output untrusted_stdout untrusted_stderr =
     (let untrusted_stdout' = decode_ascii_ignore untrusted_stdout @ decode_ascii_ignore untrusted_stderr;
          stdout_lines = [string_sanitization line. line \<leftarrow> splitlines untrusted_stdout']
      in stdout_lines)"

section \<open>Status model (\<open>vmupdate/agent/source/status.py\<close>)\<close>

datatype Status = WAIT | PENDING | DONE

datatype FinalStatus = SUCCESS | ERROR | CANCELLED | NO_UPDATES

text \<open>
  The \<open>info\<close> field holds nothing, a percentage or a final status. The percentage is a
  Python float; its type \<open>'f\<close> is left open, together with the parser that produces it.
\<close>

datatype 'f info = NoInfo | Percent 'f | Final FinalStatus

datatype 'f StatusInfo = StatusInfo (qname: string) (status: Status) (info: "'f info")

definition StatusInfo_wait :: "string \<Rightarrow> 'f StatusInfo" where
  "StatusInfo_wait qube = StatusInfo qube WAIT NoInfo"

definition StatusInfo_pending :: "string \<Rightarrow> 'f \<Rightarrow> 'f StatusInfo" where
  "StatusInfo_pending qube percent = StatusInfo qube PENDING (Percent percent)"

definition StatusInfo_done :: "string \<Rightarrow> FinalStatus \<Rightarrow> 'f StatusInfo" where
  "StatusInfo_done qube final = StatusInfo qube DONE (Final final)"

section \<open>The connection and what is outside it\<close>

text \<open>
  Everything a method does to an object other than the connection is appended to one
  trace, in the order in which it happens: an event put on the status notifier, a command
  run in the qube through \<open>run_with_args\<close> (always as root), a service started through
  \<open>run_service\<close>, the local \<open>Popen\<close> of \<open>qvm-run\<close> with a file as its input, the
  archive written by \<open>shutil.make_archive\<close>, and the shutdown of the qube. Calls of the
  logger are left out: no result depends on them.
\<close>

datatype 'f effect =
    Put "'f StatusInfo"
  | RunWithArgs "string list"
  | RunService string
  | Popen "string list" string
  | MakeArchive string string string
  | Shutdown

text \<open>
  An \<open>OSError\<close> as the operating system raises it: errno, strerror and, when it has one,
  the \<open>repr\<close> of the file name. \<open>str\<close> of it is \<open>[Errno n] strerror\<close>, followed by
  \<open>: repr\<close> when there is a file name.
\<close>

datatype oserror = OSError int pystr "pystr option"

text \<open>
  What \<open>with open(src, 'rb') as file: proc = Popen(command, stdin=file); proc.communicate()\<close>
  can do: fail to open the file, fail to start the process, or run it to its return code.
\<close>

datatype copy_outcome = OpenFailed oserror | PopenFailed oserror | Returned int

text \<open>
  The process handle that \<open>run_service\<close> returns: the values that the successive calls of
  \<open>stderr.readline\<close> and \<open>stdout.readline\<close> return (at the end of a stream
  \<open>readline\<close> returns the empty bytes), and the return code after \<open>wait\<close>.
\<close>

record proc =
  proc_stderr :: "bytes list"
  proc_stdout :: "bytes list"
  returncode :: int

text \<open>
  The external collaborators, each a function of the trace so far, so that an answer may
  depend on everything that happened before. \<open>run_with_args\<close> returns the captured
  pair (stdout, stderr) or raises \<open>CalledProcessError\<close> with a return code and an
  output. \<open>encode_for_vmexec\<close> of \<open>qubesadmin.utils\<close> and the constants \<open>LOGPATH\<close>
  and \<open>LOG_FILE\<close> of \<open>log_congfig\<close> are not part of these sources and are taken
  as given.
\<close>

record 'f env =
  is_running :: "'f effect list \<Rightarrow> bool"
  run_with_args :: "'f effect list \<Rightarrow> string list \<Rightarrow> (int \<times> bytes) + (bytes \<times> bytes)"
  run_service :: "'f effect list \<Rightarrow> string \<Rightarrow> proc"
  open_and_popen :: "'f effect list \<Rightarrow> string list \<Rightarrow> string \<Rightarrow> copy_outcome"
  mkdtemp :: "'f effect list \<Rightarrow> oserror + string"
  make_archive :: "'f effect list \<Rightarrow> string \<Rightarrow> string \<Rightarrow> string \<Rightarrow> oserror option"
  encode_for_vmexec :: "string list \<Rightarrow> string"
  LOGPATH :: string
  LOG_FILE :: string

text \<open>
  The builtins of Python that \<open>_collect_stderr\<close> calls: \<open>bytes.decode()\<close> (strict UTF-8,
  \<open>None\<close> when it raises \<open>UnicodeDecodeError\<close>), \<open>str.rstrip()\<close>, \<open>float\<close>
  (\<open>None\<close> when it raises \<open>ValueError\<close>) and the comparison \<open>progress == 100.\<close>.
\<close>

record 'f builtins =
  decode :: "bytes \<Rightarrow> pystr option"
  rstrip :: "pystr \<Rightarrow> pystr"
  float :: "pystr \<Rightarrow> 'f option"
  eq100 :: "'f \<Rightarrow> bool"

datatype error = AssertionError | UnicodeDecodeError | OSError_raised oserror

text \<open>
  The fields of \<open>QubeConnection\<close> (\<open>qube\<close> stands for the qube's name, the only
  attribute of it that is read), and the trace of what it did to the other objects.
  \<open>_initially_running\<close> is \<open>None\<close> until the connection is entered.
\<close>

record 'f QubeConnection =
  qube :: string
  dest_dir :: string
  cleanup :: bool
  show_progress :: bool
  status_notified :: bool
  initially_running :: "bool option"
  connected :: bool
  trace :: "'f effect list"

definition init :: "string \<Rightarrow> string \<Rightarrow> bool \<Rightarrow> bool \<Rightarrow> 'f effect list \<Rightarrow> 'f QubeConnection" where
  "init q dest cl show tr =
     \<lparr>qube = q, dest_dir = dest, cleanup = cl, show_progress = show, status_notified = False,
      initially_running = None, connected = False, trace = tr\<rparr>"

definition emit :: "'f effect \<Rightarrow> 'f QubeConnection \<Rightarrow> 'f QubeConnection" where
  "emit x s = s\<lparr>trace := trace s @ [x]\<rparr>"

definition put :: "'f StatusInfo \<Rightarrow> 'f QubeConnection \<Rightarrow> 'f QubeConnection" where
  "put e s = emit (Put e) s"

text \<open>The events that reached the status notifier, in order.\<close>

fun events :: "'f effect list \<Rightarrow> 'f StatusInfo list" where
  "events [] = []"
| "events (Put e # xs) = e # events xs"
| "events (x # xs) = events xs"

text \<open>The commands that were sent to the qube, in order.\<close>

fun issued :: "'f effect list \<Rightarrow> 'f effect list" where
  "issued [] = []"
| "issued (Put e # xs) = issued xs"
| "issued (MakeArchive a b c # xs) = issued xs"
| "issued (x # xs) = x # issued xs"

section \<open>Running a command\<close>

subsection \<open>\<open>_run_command_and_wait_for_output\<close>\<close>

definition run_command_and_wait_for_output ::
  "'f env \<Rightarrow> 'f QubeConnection \<Rightarrow> string list \<Rightarrow> (int \<times> bytes \<times> bytes) \<times> 'f QubeConnection" where
  "run_command_and_wait_for_output e s command =
     (case run_with_args e (trace s) command of
        Inr untrusted_stdout_and_stderr \<Rightarrow>
          ((0, untrusted_stdout_and_stderr), emit (RunWithArgs command) s)
      | Inl (err_returncode, err_output) \<Rightarrow>
          (let s1 = emit (RunWithArgs command) s in
           if err_returncode = 100
           then ((0, (err_output, err_output)),
                 (put (StatusInfo_done (qube s) NO_UPDATES) s1)\<lparr>status_notified := True\<rparr>)
           else ((err_returncode, (err_output, err_output)), s1)))"

subsection \<open>\<open>_collect_stderr\<close> and \<open>_collect_stdout\<close>\<close>

text \<open>
  The loop of \<open>_collect_stderr\<close> over the lines that \<open>readline\<close> returns, with its two
  variables \<open>stderr\<close> and \<open>progress_finished\<close>. \<open>iter(readline, '')\<close> never meets its
  sentinel, which is a \<open>str\<close>, so the loop ends at the \<open>break\<close>, on the first empty
  line. The call of \<open>decode\<close> is outside the \<open>try\<close>, so its error leaves the loop and
  the method.
\<close>

fun collect_stderr_loop ::
  "'f builtins \<Rightarrow> bytes list \<Rightarrow> bytes \<Rightarrow> bool \<Rightarrow> 'f QubeConnection \<Rightarrow> (error + bytes) \<times> 'f QubeConnection" where
  "collect_stderr_loop py [] stderr progress_finished s = (Inr stderr, s)"
| "collect_stderr_loop py (untrusted_line # rest) stderr progress_finished s =
     (if untrusted_line \<noteq> [] then
        (if \<not> progress_finished then
           (case decode py untrusted_line of
              None \<Rightarrow> (Inl UnicodeDecodeError, s)
            | Some decoded \<Rightarrow>
                (let line = string_sanitization (rstrip py decoded) in
                 case float py line of
                   None \<Rightarrow> collect_stderr_loop py rest (stderr @ untrusted_line) progress_finished s
                 | Some progress \<Rightarrow>
                     collect_stderr_loop py rest stderr
                       (if eq100 py progress then True else progress_finished)
                       (put (StatusInfo_pending (qube s) progress) s)))
         else collect_stderr_loop py rest (stderr @ untrusted_line) progress_finished s)
      else (Inr stderr, s))"

definition collect_stderr ::
  "'f builtins \<Rightarrow> 'f QubeConnection \<Rightarrow> proc \<Rightarrow> (error + bytes) \<times> 'f QubeConnection" where
  "collect_stderr py s p = collect_stderr_loop py (proc_stderr p) [] False s"

text \<open>
  The progress value that the loop reads from a line before the latch: the line is
  decoded, stripped on the right, sanitized and given to \<open>float\<close>.
\<close>

definition parsed_progress :: "'f builtins \<Rightarrow> bytes \<Rightarrow> 'f option" where
  "parsed_progress py untrusted_line =
     (case decode py untrusted_line of
        None \<Rightarrow> None
      | Some decoded \<Rightarrow> float py (string_sanitization (rstrip py decoded)))"

fun collect_stdout_loop :: "bytes list \<Rightarrow> bytes \<Rightarrow> bytes" where
  "collect_stdout_loop [] stdout = stdout"
| "collect_stdout_loop (untrusted_line # rest) stdout =
     (if untrusted_line \<noteq> [] then collect_stdout_loop rest (stdout @ untrusted_line) else stdout)"

definition collect_stdout :: "proc \<Rightarrow> bytes" where
  "collect_stdout p = collect_stdout_loop (proc_stdout p) []"

subsection \<open>\<open>_run_command_and_actively_report_progress\<close>\<close>

definition run_command_and_actively_report_progress ::
  "'f builtins \<Rightarrow> 'f env \<Rightarrow> 'f QubeConnection \<Rightarrow> string list
     \<Rightarrow> (error + int \<times> bytes \<times> bytes) \<times> 'f QubeConnection" where
  "run_command_and_actively_report_progress py e s command =
     (let service = ''qubes.VMExec+'' @ encode_for_vmexec e command;
          p = run_service e (trace s) service;
          s1 = emit (RunService service) s
      in case collect_stderr py s1 p of
           (Inl exc, s2) \<Rightarrow> (Inl exc, s2)
         | (Inr stderr, s2) \<Rightarrow>
             (let stdout = collect_stdout p;
                  ret_code = returncode p
              in if ret_code = 100
                 then (Inr (0, (stdout, stderr)),
                       (put (StatusInfo_done (qube s2) NO_UPDATES) s2)\<lparr>status_notified := True\<rparr>)
                 else (Inr (ret_code, (stdout, stderr)), s2)))"

subsection \<open>\<open>_run_shell_command_in_qube\<close>\<close>

definition run_shell_command_in_qube ::
  "'f builtins \<Rightarrow> 'f env \<Rightarrow> 'f QubeConnection \<Rightarrow> string list \<Rightarrow> bool
     \<Rightarrow> (error + int \<times> pystr list) \<times> 'f QubeConnection" where
  "run_shell_command_in_qube py e s command show =
     (if \<not> show then
        (case run_command_and_wait_for_output e s command of
           ((ret_code, (out, err)), s1) \<Rightarrow> (Inr (ret_code, collect_output out err), s1))
      else
        (case run_command_and_actively_report_progress py e s command of
           (Inl exc, s1) \<Rightarrow> (Inl exc, s1)
         | (Inr (ret_code, (out, err)), s1) \<Rightarrow> (Inr (ret_code, collect_output out err), s1)))"

section \<open>Transfer\<close>

subsection \<open>Path and string helpers of the standard library\<close>

text \<open>\<open>posixpath.join\<close> of two parts, \<open>dirname\<close>, \<open>basename\<close>, and \<open>strip(os.sep)\<close>.\<close>

definition join :: "string \<Rightarrow> string \<Rightarrow> string" where
  "join a b =
     (if b \<noteq> [] \<and> hd b = CHR ''/'' then b
      else if a = [] \<or> last a = CHR ''/'' then a @ b
      else a @ ''/'' @ b)"

definition strip_sep :: "string \<Rightarrow> string" where
  "strip_sep p = rev (dropWhile (\<lambda>c. c = CHR ''/'') (rev (dropWhile (\<lambda>c. c = CHR ''/'') p)))"

definition basename :: "string \<Rightarrow> string" where
  "basename p = rev (takeWhile (\<lambda>c. c \<noteq> CHR ''/'') (rev p))"

definition dirname :: "string \<Rightarrow> string" where
  "dirname p =
     (let head = rev (dropWhile (\<lambda>c. c \<noteq> CHR ''/'') (rev p))
      in if head \<noteq> [] \<and> head \<noteq> replicate (length head) (CHR ''/'')
         then rev (dropWhile (\<lambda>c. c = CHR ''/'') (rev head)) else head)"

text \<open>\<open>" ".join(words)\<close>\<close>

fun join_space :: "string list \<Rightarrow> string" where
  "join_space [] = []"
| "join_space [w] = w"
| "join_space (w # ws) = w @ '' '' @ join_space ws"

text \<open>\<open>str\<close> of an integer, in decimal.\<close>

fun str_nat :: "nat \<Rightarrow> pystr" where
  "str_nat n = (if n < 10 then [48 + n] else str_nat (n div 10) @ [48 + n mod 10])"

declare str_nat.simps [simp del]

definition str_int :: "int \<Rightarrow> pystr" where
  "str_int i = (if i < 0 then 45 # str_nat (nat (- i)) else str_nat (nat i))"

fun str_oserror :: "oserror \<Rightarrow> pystr" where
  "str_oserror (OSError errno strerror None) =
     text_of ''[Errno '' @ str_int errno @ text_of ''] '' @ strerror"
| "str_oserror (OSError errno strerror (Some filename_repr)) =
     text_of ''[Errno '' @ str_int errno @ text_of ''] '' @ strerror @ text_of '': '' @ filename_repr"

subsection \<open>\<open>_copy_file_from_dom0\<close>\<close>

text \<open>
  The output that is returned is a \<open>str\<close>, not a list of lines: the empty string, or
  \<open>str(exc)\<close> of the \<open>OSError\<close> that was caught, which the method raises itself
  when the return code is not zero.
\<close>

definition copy_file_from_dom0 ::
  "'f env \<Rightarrow> 'f QubeConnection \<Rightarrow> string \<Rightarrow> string \<Rightarrow> (int \<times> pystr) \<times> 'f QubeConnection" where
  "copy_file_from_dom0 e s src dest =
     (let qvm_run = [''qvm-run'', ''--user=root'', ''--pass-io'', qube s];
          write_dest = [''cat'', ''>'', dest];
          command = qvm_run @ [join_space write_dest]
      in case open_and_popen e (trace s) command src of
           OpenFailed exc \<Rightarrow> ((1, str_oserror exc), s)
         | PopenFailed exc \<Rightarrow> ((1, str_oserror exc), emit (Popen command src) s)
         | Returned ret_code \<Rightarrow>
             (if ret_code \<noteq> 0
              then ((1, text_of ''Command returns code: '' @ str_int ret_code), emit (Popen command src) s)
              else ((ret_code, []), emit (Popen command src) s)))"

subsection \<open>\<open>transfer_agent\<close>\<close>

text \<open>
  \<open>output += output_\<close> extends the list \<open>output\<close> by the elements of \<open>output_\<close>. After
  the copy step \<open>output_\<close> is a \<open>str\<close>, whose elements are its characters, each a string
  of length one.
\<close>

definition transfer_agent ::
  "'f builtins \<Rightarrow> 'f env \<Rightarrow> 'f QubeConnection \<Rightarrow> string
     \<Rightarrow> (error + int \<times> pystr list) \<times> 'f QubeConnection" where
  "transfer_agent py e s src_dir =
     (if \<not> connected s then (Inl AssertionError, s)
      else
        let arch_format = ''.tar.gz'' in
        case mkdtemp e (trace s) of
          Inl exc \<Rightarrow> (Inl (OSError_raised exc), s)
        | Inr arch_dir \<Rightarrow>
            (let root_dir = dirname src_dir;
                 base_dir = basename (strip_sep src_dir);
                 src_arch = join arch_dir (base_dir @ arch_format);
                 dest_arch = join (dest_dir s) (base_dir @ arch_format)
             in case make_archive e (trace s) (join arch_dir base_dir) root_dir base_dir of
                  Some exc \<Rightarrow> (Inl (OSError_raised exc), s)
                | None \<Rightarrow>
                    (case run_shell_command_in_qube py e
                            (emit (MakeArchive (join arch_dir base_dir) root_dir base_dir) s)
                            [''mkdir'', ''-p'', dest_dir s] False of
                       (Inl exc, s1) \<Rightarrow> (Inl exc, s1)
                     | (Inr (exit_code, output), s1) \<Rightarrow>
                         if exit_code \<noteq> 0 then (Inr (exit_code, output), s1)
                         else
                           (case copy_file_from_dom0 e s1 src_arch dest_arch of
                              ((exit_code', output'), s2) \<Rightarrow>
                                (let exit_code2 = max exit_code exit_code';
                                     output2 = output @ map (\<lambda>c. [c]) output'
                                 in if exit_code2 \<noteq> 0 then (Inr (exit_code2, output2), s2)
                                    else
                                      (case run_shell_command_in_qube py e s2
                                              [''tar'', ''-xzf'', dest_arch, ''-C'', dest_dir s2] False of
                                         (Inl exc, s3) \<Rightarrow> (Inl exc, s3)
                                       | (Inr (exit_code'', output''), s3) \<Rightarrow>
                                           (Inr (max exit_code2 exit_code'', output2 @ output''), s3)))))))"

section \<open>The session\<close>

subsection \<open>\<open>run_entrypoint\<close> and \<open>read_logs\<close>\<close>

text \<open>
  \<open>AgentArgs.to_cli_args\<close> is not part of these sources: \<open>cli_args\<close> stands for its
  result on \<open>agent_args\<close>.
\<close>

definition run_entrypoint ::
  "'f builtins \<Rightarrow> 'f env \<Rightarrow> 'f QubeConnection \<Rightarrow> string \<Rightarrow> string list
     \<Rightarrow> (error + int \<times> pystr list) \<times> 'f QubeConnection" where
  "run_entrypoint py e s entrypoint_path cli_args =
     (case run_shell_command_in_qube py e s [''chmod'', ''u+x'', entrypoint_path] False of
        (Inl exc, s1) \<Rightarrow> (Inl exc, s1)
      | (Inr (exit_code, output), s1) \<Rightarrow>
          (case run_shell_command_in_qube py e s1 (entrypoint_path # cli_args) (show_progress s1) of
             (Inl exc, s2) \<Rightarrow> (Inl exc, s2)
           | (Inr (exit_code', output'), s2) \<Rightarrow>
               (Inr (max exit_code exit_code', output @ output'), s2)))"

definition read_logs ::
  "'f builtins \<Rightarrow> 'f env \<Rightarrow> 'f QubeConnection \<Rightarrow> (error + int \<times> pystr list) \<times> 'f QubeConnection" where
  "read_logs py e s =
     run_shell_command_in_qube py e s [''cat'', join (LOGPATH e) (LOG_FILE e)] False"

subsection \<open>\<open>__enter__\<close> and \<open>__exit__\<close>\<close>

definition enter :: "'f env \<Rightarrow> 'f QubeConnection \<Rightarrow> 'f QubeConnection" where
  "enter e s = s\<lparr>initially_running := Some (is_running e (trace s)), connected := True\<rparr>"

text \<open>
  \<open>not self._initially_running\<close> is true for \<open>None\<close> and for \<open>False\<close>. The result of
  the cleanup command is dropped; an exception of it would leave \<open>__exit__\<close> at once.
\<close>

definition exit ::
  "'f builtins \<Rightarrow> 'f env \<Rightarrow> 'f QubeConnection \<Rightarrow> error option \<times> 'f QubeConnection" where
  "exit py e s =
     (let s1 = (if \<not> status_notified s then put (StatusInfo_done (qube s) SUCCESS) s else s)
      in case (if cleanup s1
               then run_shell_command_in_qube py e s1 [''rm'', ''-r'', dest_dir s1] False
               else (Inr (0, []), s1)) of
           (Inl exc, s2) \<Rightarrow> (Some exc, s2)
         | (Inr r, s2) \<Rightarrow>
             (let s3 = (if is_running e (trace s2) \<and> initially_running s2 \<noteq> Some True
                        then emit Shutdown s2 else s2)
              in (None, s3\<lparr>connected := False\<rparr>)))"

text \<open>
  \<open>with QubeConnection(...) as conn: body\<close>. The body returns a value or raises;
  \<open>__exit__\<close> runs in both cases and returns nothing, so an exception of the body goes on
  to the caller, unless \<open>__exit__\<close> raises one of its own.
\<close>

definition with_connection ::
  "'f builtins \<Rightarrow> 'f env \<Rightarrow> 'f QubeConnection \<Rightarrow> ('f QubeConnection \<Rightarrow> (error + 'a) \<times> 'f QubeConnection)
     \<Rightarrow> (error + 'a) \<times> 'f QubeConnection" where
  "with_connection py e s body =
     (case body (enter e s) of
        (r, s1) \<Rightarrow>
          (case exit py e s1 of
             (Some exc, s2) \<Rightarrow> (Inl exc, s2)
           | (None, s2) \<Rightarrow> (r, s2)))"

section \<open>Combining two results\<close>

text \<open>
  The two lines \<open>exit_code = max(exit_code, exit_code_)\<close> and \<open>output += output_\<close>
  that follow every step but the first in \<open>transfer_agent\<close> and \<open>run_entrypoint\<close>.
\<close>

definition combine :: "int \<times> 'a list \<Rightarrow> int \<times> 'a list \<Rightarrow> int \<times> 'a list" where
  "combine a b = (case a of (exit_code, output) \<Rightarrow> case b of (exit_code', output') \<Rightarrow>
     (max exit_code exit_code', output @ output'))"

section \<open>Concrete builtins and collaborators for the examples\<close>

text \<open>
  Strict UTF-8 decoding as \<open>bytes.decode()\<close> does it: shortest forms only, no
  surrogates, nothing above U+10FFFF.
\<close>

definition continuation :: "nat \<Rightarrow> bool" where
  "continuation b \<longleftrightarrow> 0x80 \<le> b \<and> b \<le> 0xBF"

fun utf8 :: "nat list \<Rightarrow> pystr option" where
  "utf8 [] = Some []"
| "utf8 (b # bs) =
     (if b < 0x80 then map_option (Cons b) (utf8 bs)
      else if 0xC2 \<le> b \<and> b \<le> 0xDF then
        (case bs of
           c1 # r \<Rightarrow>
             if continuation c1
             then map_option (Cons ((b - 0xC0) * 64 + (c1 - 0x80))) (utf8 r) else None
         | _ \<Rightarrow> None)
      else if 0xE0 \<le> b \<and> b \<le> 0xEF then
        (case bs of
           c1 # c2 # r \<Rightarrow>
             if (if b = 0xE0 then 0xA0 else 0x80) \<le> c1 \<and> c1 \<le> (if b = 0xED then 0x9F else 0xBF)
                \<and> continuation c2
             then map_option (Cons ((b - 0xE0) * 4096 + (c1 - 0x80) * 64 + (c2 - 0x80))) (utf8 r)
             else None
         | _ \<Rightarrow> None)
      else if 0xF0 \<le> b \<and> b \<le> 0xF4 then
        (case bs of
           c1 # c2 # c3 # r \<Rightarrow>
             if (if b = 0xF0 then 0x90 else 0x80) \<le> c1 \<and> c1 \<le> (if b = 0xF4 then 0x8F else 0xBF)
                \<and> continuation c2 \<and> continuation c3
             then map_option
                    (Cons ((b - 0xF0) * 262144 + (c1 - 0x80) * 4096 + (c2 - 0x80) * 64 + (c3 - 0x80)))
                    (utf8 r)
             else None
         | _ \<Rightarrow> None)
      else None)"

definition decode_utf8 :: "bytes \<Rightarrow> pystr option" where
  "decode_utf8 b = utf8 (map of_char b)"

text \<open>\<open>str.rstrip()\<close> removes the trailing characters for which \<open>str.isspace\<close> holds.\<close>

definition isspace :: "nat \<Rightarrow> bool" where
  "isspace c \<longleftrightarrow>
     (0x09 \<le> c \<and> c \<le> 0x0D) \<or> (0x1C \<le> c \<and> c \<le> 0x20) \<or> c = 0x85 \<or> c = 0xA0 \<or> c = 0x1680
     \<or> (0x2000 \<le> c \<and> c \<le> 0x200A) \<or> c = 0x2028 \<or> c = 0x2029 \<or> c = 0x202F \<or> c = 0x205F
     \<or> c = 0x3000"

definition str_rstrip :: "pystr \<Rightarrow> pystr" where
  "str_rstrip t = rev (dropWhile isspace (rev t))"

text \<open>
  A stand-in for \<open>float\<close> on the plain decimal literals of the examples: an optional
  sign, digits, at most one point, at least one digit. The value is kept as a rational.
  It covers neither exponents, \<open>inf\<close>, \<open>nan\<close> and underscores, nor the rounding to a
  double; no theorem below depends on it, only the examples.
\<close>

definition is_digit :: "nat \<Rightarrow> bool" where
  "is_digit c \<longleftrightarrow> 48 \<le> c \<and> c \<le> 57"

definition digits_value :: "pystr \<Rightarrow> nat" where
  "digits_value ds = foldl (\<lambda>a c. 10 * a + (c - 48)) 0 ds"

definition decimal_float :: "pystr \<Rightarrow> rat option" where
  "decimal_float t =
     (let negative = (t \<noteq> [] \<and> hd t = 45);
          body = (if t \<noteq> [] \<and> (hd t = 45 \<or> hd t = 43) then tl t else t);
          int_part = takeWhile is_digit body;
          rest = dropWhile is_digit body;
          frac_part = (if rest \<noteq> [] \<and> hd rest = 46 then tl rest else [])
      in if (rest = [] \<or> hd rest = 46) \<and> list_all is_digit frac_part
            \<and> (int_part \<noteq> [] \<or> frac_part \<noteq> [])
         then Some ((if negative then - 1 else 1)
                    * (of_nat (digits_value (int_part @ frac_part)) / 10 ^ length frac_part))
         else None)"

definition python :: "rat builtins" where
  "python = \<lparr>decode = decode_utf8, rstrip = str_rstrip, float = decimal_float, eq100 = (\<lambda>p. p = 100)\<rparr>"

text \<open>
  A qube that is halted at first, is started by the first command sent to it and runs
  until it is shut down. \<open>answer\<close> is what \<open>run_with_args\<close> does with each command,
  \<open>p\<close> the process of every service, \<open>c\<close> the outcome of every local copy.
\<close>

definition example_env ::
  "(string list \<Rightarrow> (int \<times> bytes) + (bytes \<times> bytes)) \<Rightarrow> proc \<Rightarrow> copy_outcome \<Rightarrow> rat env" where
  "example_env answer p c =
     \<lparr>is_running = (\<lambda>tr. issued tr \<noteq> [] \<and> last (issued tr) \<noteq> Shutdown),
      run_with_args = (\<lambda>tr. answer),
      run_service = (\<lambda>tr service. p),
      open_and_popen = (\<lambda>tr command src. c),
      mkdtemp = (\<lambda>tr. Inr ''/tmp/tmpab''),
      make_archive = (\<lambda>tr base_name root_dir base_dir. None),
      encode_for_vmexec = join_space,
      LOGPATH = ''/var/log/qubes'',
      LOG_FILE = ''agent.log''\<rparr>"

definition quiet_proc :: proc where
  "quiet_proc = \<lparr>proc_stderr = [], proc_stdout = [], returncode = 0\<rparr>"

text \<open>
  A service that reports progress on its diagnostic channel and ends with return code
  100, and collaborators that answer every command with that code.
\<close>

definition progress_proc :: proc where
  "progress_proc =
     \<lparr>proc_stderr = [''12.5\<newline>'', ''50.0\<newline>'', ''building...\<newline>'', ''100.0\<newline>'',
                     ''99.0\<newline>'', ''done\<newline>''],
      proc_stdout = [''ok\<newline>''],
      returncode = 100\<rparr>"

definition no_updates_env :: "rat env" where
  "no_updates_env = example_env (\<lambda>command. Inl (100, ''na\<newline>'')) progress_proc (Returned 0)"

definition fresh :: "rat QubeConnection" where
  "fresh = init ''vm'' ''/run/dest'' True False []"

text \<open>
  Collaborators for which every command succeeds with no output, and collaborators for
  which every command fails with exit code 1.
\<close>

definition quiet_env :: "rat env" where
  "quiet_env = example_env (\<lambda>command. Inr ([], [])) quiet_proc (Returned 0)"

definition mkdir_fails_env :: "rat env" where
  "mkdir_fails_env = example_env (\<lambda>command. Inl (1, ''denied\<newline>'')) quiet_proc (Returned 0)"

text \<open>
  Collaborators for which the local copy ends with return code 3, for which the archive
  cannot be opened, for which \<open>chmod\<close> fails with exit code 1 while every other command
  prints a line, and for which \<open>chmod\<close> is killed by signal 9 (return code \<open>-9\<close>).
\<close>

definition copy_fails_env :: "rat env" where
  "copy_fails_env = example_env (\<lambda>command. Inr ([], [])) quiet_proc (Returned 3)"

definition killed_chmod_env :: "rat env" where
  "killed_chmod_env =
     example_env (\<lambda>command. if command \<noteq> [] \<and> hd command = ''chmod'' then Inl (- 9, []) else Inr ([], []))
       quiet_proc (Returned 0)"

definition open_fails_env :: "rat env" where
  "open_fails_env =
     example_env (\<lambda>command. Inr ([], [])) quiet_proc
       (OpenFailed (OSError 2 (text_of ''No such file or directory'')
                      (Some ([39] @ text_of ''/tmp/tmpab/agent.tar.gz'' @ [39]))))"

definition chmod_fails_env :: "rat env" where
  "chmod_fails_env =
     example_env (\<lambda>command. if command \<noteq> [] \<and> hd command = ''chmod'' then Inl (1, ''no\<newline>'')
                             else Inr (''ok\<newline>'', []))
       quiet_proc (Returned 0)"

text \<open>
  Collaborators for which every command fails with an output that does not end in a
  newline; a service whose diagnostic channel holds a line that is not UTF-8; and a
  service that ends before its progress reaches 100.
\<close>

definition unterminated_env :: "rat env" where
  "unterminated_env = example_env (\<lambda>command. Inl (1, ''err'')) quiet_proc (Returned 0)"

text \<open>Collaborators for which every command fails with the output LF, \<open>b\<close>, CR.\<close>

definition cr_lf_env :: "rat env" where
  "cr_lf_env = example_env (\<lambda>command. Inl (1, [CHR 0x0A, CHR ''b'', CHR 0x0D])) quiet_proc (Returned 0)"

definition hostile_proc :: proc where
  "hostile_proc = \<lparr>proc_stderr = [[CHR 0xFF, CHR 0x0A]], proc_stdout = [], returncode = 0\<rparr>"

definition unfinished_proc :: proc where
  "unfinished_proc =
     \<lparr>proc_stderr = [''12.5\<newline>'', ''50.0\<newline>'', ''building...\<newline>''], proc_stdout = [], returncode = 0\<rparr>"

section \<open>The sanitizer\<close>

lemma string_sanitization_filter:
  "string_sanitization line = filter (\<lambda>c. 0x20 \<le> c \<and> c \<le> 0x7e) line"
  by (induction line) (simp_all add: string_sanitization_def)

text \<open>
  C6. For every string, the sanitized string holds only characters with a code point in
  [0x20, 0x7E]; the other characters are dropped and nothing is put in their place (the
  result is a subsequence of the input that still holds every printable character of it,
  in order); and sanitizing a second time changes nothing.
\<close>

theorem string_sanitization_printable_idempotent:
  "list_all (\<lambda>c. 0x20 \<le> c \<and> c \<le> 0x7e) (string_sanitization s)
   \<and> subseq (string_sanitization s) s
   \<and> filter (\<lambda>c. 0x20 \<le> c \<and> c \<le> 0x7e) (string_sanitization s) = filter (\<lambda>c. 0x20 \<le> c \<and> c \<le> 0x7e) s
   \<and> string_sanitization (string_sanitization s) = string_sanitization s"
  by (simp add: string_sanitization_filter list_all_iff)

section \<open>Facts used throughout\<close>

lemmas example_defs =
  example_env_def quiet_proc_def fresh_def init_def python_def
  enter_def emit_def put_def StatusInfo_done_def StatusInfo_pending_def

lemmas text_defs =
  collect_output_def decode_ascii_ignore_def splitlines_def line_boundary_def
  string_sanitization_def text_of_def

lemmas path_defs = join_def basename_def strip_sep_def dirname_def

lemmas float_defs =
  decode_utf8_def continuation_def str_rstrip_def isspace_def decimal_float_def is_digit_def
  digits_value_def

text \<open>What the wait strategy returns, by the answer of \<open>run_with_args\<close>.\<close>

lemma wait_strategy_result:
  "run_shell_command_in_qube py e s command False =
     (case run_with_args e (trace s) command of
        Inr (out, err) \<Rightarrow> (Inr (0, collect_output out err), emit (RunWithArgs command) s)
      | Inl (rc, out) \<Rightarrow>
          if rc = 100
          then (Inr (0, collect_output out out),
                (put (StatusInfo_done (qube s) NO_UPDATES) (emit (RunWithArgs command) s))\<lparr>status_notified := True\<rparr>)
          else (Inr (rc, collect_output out out), emit (RunWithArgs command) s))"
  by (simp add: run_shell_command_in_qube_def run_command_and_wait_for_output_def
      split: sum.splits prod.splits)

lemma collect_stderr_loop_only_trace:
  "snd (collect_stderr_loop py ls b f s) = s\<lparr>trace := trace (snd (collect_stderr_loop py ls b f s))\<rparr>"
proof (induction ls arbitrary: b f s)
  case Nil
  show ?case by simp
next
  case (Cons l ls)
  show ?case
  proof (cases "l = []")
    case True
    then show ?thesis by simp
  next
    case nonempty: False
    show ?thesis
    proof (cases f)
      case True
      with nonempty Cons.IH [of "b @ l" True s] show ?thesis by simp
    next
      case False
      show ?thesis
      proof (cases "decode py l")
        case None
        with nonempty False show ?thesis by simp
      next
        case (Some d)
        show ?thesis
        proof (cases "float py (string_sanitization (rstrip py d))")
          case None
          with nonempty False Some Cons.IH [of "b @ l" False s] show ?thesis by simp
        next
          case (Some p)
          let ?s' = "put (StatusInfo_pending (qube s) p) s"
          let ?f' = "if eq100 py p then True else False"
          have "snd (collect_stderr_loop py ls b ?f' ?s')
                = ?s'\<lparr>trace := trace (snd (collect_stderr_loop py ls b ?f' ?s'))\<rparr>"
            by (rule Cons.IH)
          with nonempty False \<open>decode py l = Some d\<close> Some show ?thesis
            by (simp add: put_def emit_def)
        qed
      qed
    qed
  qed
qed

lemma collect_stderr_only_trace:
  "collect_stderr py s p = (r, s2) \<Longrightarrow> s2 = s\<lparr>trace := trace s2\<rparr>"
  using collect_stderr_loop_only_trace [of py "proc_stderr p" "[]" False s]
  by (simp add: collect_stderr_def)

section \<open>Exit code 100\<close>

text \<open>
  C1, as the code has it. A command whose result carries exit code 100 is reported
  with code 0, and each such command, whether or not a final status was emitted before,
  puts one Done/NoUpdatesAvailable event and sets \<open>status_notified\<close>. This holds for the
  wait strategy, and for the streaming strategy when reading the diagnostic channel raised
  nothing.
\<close>

theorem exit_code_100_remapped_on_every_command:
  "(run_with_args e (trace s) command = Inl (100, out) \<longrightarrow>
      run_shell_command_in_qube py e s command False =
        (Inr (0, collect_output out out),
         s\<lparr>trace := trace s @ [RunWithArgs command, Put (StatusInfo_done (qube s) NO_UPDATES)],
           status_notified := True\<rparr>))
   \<and> (service = ''qubes.VMExec+'' @ encode_for_vmexec e command
        \<and> p = run_service e (trace s) service \<and> returncode p = 100
        \<and> collect_stderr py (emit (RunService service) s) p = (Inr err, s2) \<longrightarrow>
      run_shell_command_in_qube py e s command True =
        (Inr (0, collect_output (collect_stdout p) err),
         s\<lparr>trace := trace s2 @ [Put (StatusInfo_done (qube s) NO_UPDATES)],
           status_notified := True\<rparr>))"
proof (intro conjI impI)
  assume "run_with_args e (trace s) command = Inl (100, out)"
  then show "run_shell_command_in_qube py e s command False =
        (Inr (0, collect_output out out),
         s\<lparr>trace := trace s @ [RunWithArgs command, Put (StatusInfo_done (qube s) NO_UPDATES)],
           status_notified := True\<rparr>)"
    by (simp add: wait_strategy_result put_def emit_def)
next
  assume a: "service = ''qubes.VMExec+'' @ encode_for_vmexec e command
        \<and> p = run_service e (trace s) service \<and> returncode p = 100
        \<and> collect_stderr py (emit (RunService service) s) p = (Inr err, s2)"
  then have "s2 = (emit (RunService service) s)\<lparr>trace := trace s2\<rparr>"
    using collect_stderr_only_trace by blast
  then have s2: "s2 = s\<lparr>trace := trace s2\<rparr>"
    by (simp add: emit_def)
  have q: "qube s2 = qube s"
    by (subst s2) simp
  have fin: "(put (StatusInfo_done (qube s) NO_UPDATES) s2)\<lparr>status_notified := True\<rparr>
        = s\<lparr>trace := trace s2 @ [Put (StatusInfo_done (qube s) NO_UPDATES)], status_notified := True\<rparr>"
    by (subst s2) (simp add: put_def emit_def)
  from a have svc: "service = ''qubes.VMExec+'' @ encode_for_vmexec e command"
    and pp: "p = run_service e (trace s) service"
    and rc: "returncode p = 100"
    and cs: "collect_stderr py (emit (RunService service) s) p = (Inr err, s2)"
    by blast+
  have "run_command_and_actively_report_progress py e s command
        = (Inr (0, (collect_stdout p, err)),
           (put (StatusInfo_done (qube s2) NO_UPDATES) s2)\<lparr>status_notified := True\<rparr>)"
    unfolding run_command_and_actively_report_progress_def Let_def svc [symmetric] pp [symmetric]
    by (simp add: cs rc)
  with q fin show "run_shell_command_in_qube py e s command True =
        (Inr (0, collect_output (collect_stdout p) err),
         s\<lparr>trace := trace s2 @ [Put (StatusInfo_done (qube s) NO_UPDATES)],
           status_notified := True\<rparr>)"
    by (simp add: run_shell_command_in_qube_def)
qed


theorem exit_code_100_remapped_on_every_command_witness:
  "run_shell_command_in_qube python no_updates_env (enter no_updates_env fresh) [''true''] False =
     (Inr (0, [text_of ''na'', text_of ''na'']),
      (enter no_updates_env fresh)
        \<lparr>trace := [RunWithArgs [''true''], Put (StatusInfo_done ''vm'' NO_UPDATES)],
          status_notified := True\<rparr>)
   \<and> run_shell_command_in_qube python no_updates_env (enter no_updates_env fresh) [''true''] True =
     (Inr (0, [text_of ''ok'', text_of ''building...'', text_of ''99.0'', text_of ''done'']),
      (enter no_updates_env fresh)
        \<lparr>trace := [RunService ''qubes.VMExec+true'',
                   Put (StatusInfo_pending ''vm'' (25 / 2)), Put (StatusInfo_pending ''vm'' 50),
                   Put (StatusInfo_pending ''vm'' 100), Put (StatusInfo_done ''vm'' NO_UPDATES)],
          status_notified := True\<rparr>)"
proof -
  let ?s = "enter no_updates_env fresh"
  have h1: "run_with_args no_updates_env (trace ?s) [''true''] = Inl (100, ''na\<newline>'')"
    by (simp add: example_defs no_updates_env_def progress_proc_def)
  have h2: "''qubes.VMExec+true'' = ''qubes.VMExec+'' @ encode_for_vmexec no_updates_env [''true'']
      \<and> progress_proc = run_service no_updates_env (trace ?s) ''qubes.VMExec+true''
      \<and> returncode progress_proc = 100
      \<and> collect_stderr python (emit (RunService ''qubes.VMExec+true'') ?s) progress_proc =
          (Inr ''building...\<newline>99.0\<newline>done\<newline>'',
           ?s\<lparr>trace := [RunService ''qubes.VMExec+true'',
                   Put (StatusInfo_pending ''vm'' (25 / 2)), Put (StatusInfo_pending ''vm'' 50),
                   Put (StatusInfo_pending ''vm'' 100)]\<rparr>)"
    by (simp add: example_defs no_updates_env_def progress_proc_def collect_stderr_def float_defs text_defs)
  have c1: "collect_output ''na\<newline>'' ''na\<newline>'' = [text_of ''na'', text_of ''na'']"
    by (simp add: text_defs)
  have c2: "collect_output (collect_stdout progress_proc) ''building...\<newline>99.0\<newline>done\<newline>''
            = [text_of ''ok'', text_of ''building...'', text_of ''99.0'', text_of ''done'']"
    by (simp add: text_defs collect_stdout_def progress_proc_def)
  have q: "qube ?s = ''vm''" "trace ?s = []"
    by (simp_all add: example_defs no_updates_env_def progress_proc_def)
  from exit_code_100_remapped_on_every_command
         [where e = no_updates_env and s = "?s" and command = "[''true'']" and out = "''na\<newline>''"
            and py = python and service = "''qubes.VMExec+true''" and p = progress_proc
            and err = "''building...\<newline>99.0\<newline>done\<newline>''"]
       h1 h2
  show ?thesis
    unfolding c1 c2 q by simp
qed


text \<open>
  C1 as stated fails: two commands with exit code 100 in one session put two
  Done/NoUpdatesAvailable events.
\<close>

theorem second_exit_code_100_puts_second_event:
  "events (trace (snd (read_logs python no_updates_env
                        (snd (read_logs python no_updates_env (enter no_updates_env fresh))))))
   = [StatusInfo_done ''vm'' NO_UPDATES, StatusInfo_done ''vm'' NO_UPDATES]"
  by (simp add: read_logs_def wait_strategy_result example_defs no_updates_env_def progress_proc_def)

section \<open>Teardown\<close>

text \<open>What \<open>__exit__\<close> does to a connection, whatever happened before.\<close>

lemma exit_result:
  "exit py e s =
     (let t1 = trace s @ (if status_notified s then [] else [Put (StatusInfo_done (qube s) SUCCESS)]);
          rm = [''rm'', ''-r'', dest_dir s];
          no_updates = (case run_with_args e t1 rm of
                          Inl (rc, out) \<Rightarrow> cleanup s \<and> rc = 100
                        | Inr r \<Rightarrow> False);
          t2 = t1 @ (if cleanup s then [RunWithArgs rm] else [])
                  @ (if no_updates then [Put (StatusInfo_done (qube s) NO_UPDATES)] else []);
          t3 = t2 @ (if is_running e t2 \<and> initially_running s \<noteq> Some True then [Shutdown] else [])
      in (None, s\<lparr>trace := t3, status_notified := (status_notified s \<or> no_updates),
                   connected := False\<rparr>))"
proof -
  define rm where "rm = [''rm'', ''-r'', dest_dir s]"
  define s1 where "s1 = (if \<not> status_notified s then put (StatusInfo_done (qube s) SUCCESS) s else s)"
  define t1 where "t1 = trace s @ (if status_notified s then [] else [Put (StatusInfo_done (qube s) SUCCESS)])"
  have s1: "s1 = s\<lparr>trace := t1\<rparr>"
    by (simp add: s1_def t1_def put_def emit_def)
  have f: "qube s1 = qube s" "dest_dir s1 = dest_dir s" "cleanup s1 = cleanup s" "trace s1 = t1"
    "status_notified s1 = status_notified s" "initially_running s1 = initially_running s"
    by (simp_all add: s1)
  have ex: "exit py e s =
     (case (if cleanup s then run_shell_command_in_qube py e s1 rm False else (Inr (0, []), s1)) of
           (Inl exc, s2) \<Rightarrow> (Some exc, s2)
         | (Inr r, s2) \<Rightarrow>
             (let s3 = (if is_running e (trace s2) \<and> initially_running s2 \<noteq> Some True
                        then emit Shutdown s2 else s2)
              in (None, s3\<lparr>connected := False\<rparr>)))"
    unfolding exit_def Let_def s1_def [symmetric] f rm_def [symmetric] ..
  show ?thesis
  proof (cases "cleanup s")
    case False
    then show ?thesis
      unfolding ex Let_def rm_def [symmetric] t1_def [symmetric]
      by (simp add: s1 emit_def split: sum.splits prod.splits)
  next
    case True
    show ?thesis
    proof (cases "run_with_args e t1 rm")
      case (Inr r)
      obtain out err where r: "r = (out, err)" by (cases r)
      with True Inr show ?thesis
        unfolding ex Let_def rm_def [symmetric] t1_def [symmetric]
        by (simp add: wait_strategy_result f s1 emit_def)
    next
      case (Inl a)
      obtain rc out where a: "a = (rc, out)" by (cases a)
      with True Inl show ?thesis
        unfolding ex Let_def rm_def [symmetric] t1_def [symmetric]
        by (simp add: wait_strategy_result f s1 emit_def put_def)
    qed
  qed
qed


text \<open>
  C2, as the code has it. On every exit of the scope, whether the body returned or
  raised and whatever it did, the teardown runs in this order: if \<open>status_notified\<close> is
  not set, one Done/Success event is put; if \<open>cleanup\<close> is set, \<open>rm -r dest_dir\<close> is run
  in the qube, and if that command exits with code 100 it puts a Done/NoUpdatesAvailable
  event as any command does; the qube is shut down exactly when it is running then and
  was not running at entry; the connection is marked inactive. The result or the error
  of the body goes on to the caller.
\<close>

theorem exit_teardown_in_fixed_order:
  "(let s1 = snd (body (enter e s0));
        t1 = trace s1 @ (if status_notified s1 then [] else [Put (StatusInfo_done (qube s1) SUCCESS)]);
        rm = [''rm'', ''-r'', dest_dir s1];
        no_updates = (case run_with_args e t1 rm of
                        Inl (rc, out) \<Rightarrow> cleanup s1 \<and> rc = 100
                      | Inr r \<Rightarrow> False);
        t2 = t1 @ (if cleanup s1 then [RunWithArgs rm] else [])
                @ (if no_updates then [Put (StatusInfo_done (qube s1) NO_UPDATES)] else []);
        t3 = t2 @ (if is_running e t2 \<and> initially_running s1 \<noteq> Some True then [Shutdown] else [])
    in with_connection py e s0 body =
         (fst (body (enter e s0)),
          s1\<lparr>trace := t3, status_notified := (status_notified s1 \<or> no_updates), connected := False\<rparr>))"
proof -
  obtain r s1 where b: "body (enter e s0) = (r, s1)"
    by (cases "body (enter e s0)")
  have "with_connection py e s0 body = (r, snd (exit py e s1))"
    by (simp add: with_connection_def b exit_result Let_def)
  then show ?thesis
    unfolding b exit_result Let_def snd_conv fst_conv .
qed


theorem exit_teardown_in_fixed_order_witness:
  "with_connection python quiet_env fresh (\<lambda>s. (Inr (), s)) =
     (Inr (),
      fresh\<lparr>trace := [Put (StatusInfo_done ''vm'' SUCCESS), RunWithArgs [''rm'', ''-r'', ''/run/dest''],
                       Shutdown],
            initially_running := Some False\<rparr>)
   \<and> with_connection python quiet_env fresh (\<lambda>s. (Inl UnicodeDecodeError :: error + unit, s)) =
     (Inl UnicodeDecodeError,
      fresh\<lparr>trace := [Put (StatusInfo_done ''vm'' SUCCESS), RunWithArgs [''rm'', ''-r'', ''/run/dest''],
                       Shutdown],
            initially_running := Some False\<rparr>)"
  using exit_teardown_in_fixed_order [of "\<lambda>s. (Inr (), s)" quiet_env fresh python]
    exit_teardown_in_fixed_order [of "\<lambda>s. (Inl UnicodeDecodeError :: error + unit, s)" quiet_env fresh python]
  by (simp add: example_defs quiet_env_def Let_def)

text \<open>
  C2 as stated fails in its last sentence: a session that performs no operation and
  raises nothing puts two status events when cleanup is requested and the cleanup
  command exits with code 100.
\<close>

theorem idle_session_with_cleanup_puts_two_events:
  "events (trace (snd (with_connection python no_updates_env fresh (\<lambda>s. (Inr (), s)))))
   = [StatusInfo_done ''vm'' SUCCESS, StatusInfo_done ''vm'' NO_UPDATES]"
  by (simp add: with_connection_def exit_result example_defs no_updates_env_def progress_proc_def Let_def)

section \<open>The precondition on an active connection\<close>

text \<open>
  C4. Only \<open>transfer_agent\<close> asserts that the connection was entered. On a connection
  that was never entered it raises \<open>AssertionError\<close> and sends nothing, while
  \<open>read_logs\<close> and \<open>run_entrypoint\<close> send their commands to the qube and return the
  results.
\<close>

theorem operations_on_inactive_session:
  "\<not> connected fresh
   \<and> transfer_agent python quiet_env fresh ''/usr/lib/agent'' = (Inl AssertionError, fresh)
   \<and> read_logs python quiet_env fresh =
       (Inr (0, []), fresh\<lparr>trace := [RunWithArgs [''cat'', ''/var/log/qubes/agent.log'']]\<rparr>)
   \<and> run_entrypoint python quiet_env fresh ''/run/dest/agent/entrypoint.py'' [''--quiet''] =
       (Inr (0, []),
        fresh\<lparr>trace := [RunWithArgs [''chmod'', ''u+x'', ''/run/dest/agent/entrypoint.py''],
                         RunWithArgs [''/run/dest/agent/entrypoint.py'', ''--quiet'']]\<rparr>)"
  by (simp add: transfer_agent_def read_logs_def run_entrypoint_def wait_strategy_result
      example_defs quiet_env_def join_def text_defs)

section \<open>The steps of a transfer\<close>

text \<open>\<open>transfer_agent\<close> from the result of its first command on.\<close>

lemma transfer_agent_after_archive:
  assumes "connected s" and "mkdtemp e (trace s) = Inr arch_dir"
    and "make_archive e (trace s) (join arch_dir (basename (strip_sep src_dir))) (dirname src_dir)
           (basename (strip_sep src_dir)) = None"
    and "run_shell_command_in_qube py e
           (emit (MakeArchive (join arch_dir (basename (strip_sep src_dir))) (dirname src_dir)
                    (basename (strip_sep src_dir))) s)
           [''mkdir'', ''-p'', dest_dir s] False = (Inr (exit_code, output), s1)"
  shows "transfer_agent py e s src_dir =
     (if exit_code \<noteq> 0 then (Inr (exit_code, output), s1)
      else
        (case copy_file_from_dom0 e s1 (join arch_dir (basename (strip_sep src_dir) @ ''.tar.gz''))
                (join (dest_dir s) (basename (strip_sep src_dir) @ ''.tar.gz'')) of
           ((exit_code', output'), s2) \<Rightarrow>
             if max exit_code exit_code' \<noteq> 0
             then (Inr (max exit_code exit_code', output @ map (\<lambda>c. [c]) output'), s2)
             else
               (case run_shell_command_in_qube py e s2
                       [''tar'', ''-xzf'', join (dest_dir s) (basename (strip_sep src_dir) @ ''.tar.gz''),
                        ''-C'', dest_dir s2] False of
                  (Inl exc, s3) \<Rightarrow> (Inl exc, s3)
                | (Inr (exit_code'', output''), s3) \<Rightarrow>
                    (Inr (max (max exit_code exit_code') exit_code'',
                          (output @ map (\<lambda>c. [c]) output') @ output''), s3))))"
  unfolding transfer_agent_def Let_def using assms by simp

text \<open>
  C3, as the code has it. When the directory-creation command fails with a code other
  than 0 and other than 100, \<open>transfer_agent\<close> returns at once with that code and the
  output of that command: the trace ends with the \<open>mkdir\<close> command, so nothing is
  copied and nothing is extracted.
\<close>

theorem transfer_agent_returns_after_failed_mkdir:
  assumes "connected s" and "mkdtemp e (trace s) = Inr arch_dir"
    and "make_archive e (trace s) (join arch_dir (basename (strip_sep src_dir))) (dirname src_dir)
           (basename (strip_sep src_dir)) = None"
    and "run_with_args e
           (trace s @ [MakeArchive (join arch_dir (basename (strip_sep src_dir))) (dirname src_dir)
                         (basename (strip_sep src_dir))])
           [''mkdir'', ''-p'', dest_dir s] = Inl (rc, out)"
    and "rc \<noteq> 0" and "rc \<noteq> 100"
  shows "transfer_agent py e s src_dir =
     (Inr (rc, collect_output out out),
      s\<lparr>trace := trace s @ [MakeArchive (join arch_dir (basename (strip_sep src_dir))) (dirname src_dir)
                                (basename (strip_sep src_dir)),
                              RunWithArgs [''mkdir'', ''-p'', dest_dir s]]\<rparr>)"
proof -
  let ?a = "MakeArchive (join arch_dir (basename (strip_sep src_dir))) (dirname src_dir)
              (basename (strip_sep src_dir))"
  have "run_shell_command_in_qube py e (emit ?a s) [''mkdir'', ''-p'', dest_dir s] False =
          (Inr (rc, collect_output out out), emit (RunWithArgs [''mkdir'', ''-p'', dest_dir s]) (emit ?a s))"
    using assms(4-6) by (simp add: wait_strategy_result emit_def)
  from transfer_agent_after_archive [OF assms(1-3) this] assms(5)
  show ?thesis by (simp add: emit_def)
qed

theorem transfer_agent_returns_after_failed_mkdir_witness:
  "transfer_agent python mkdir_fails_env (enter mkdir_fails_env fresh) ''/usr/lib/agent'' =
     (Inr (1, [text_of ''denied'', text_of ''denied'']),
      (enter mkdir_fails_env fresh)
        \<lparr>trace := [MakeArchive ''/tmp/tmpab/agent'' ''/usr/lib'' ''agent'',
                   RunWithArgs [''mkdir'', ''-p'', ''/run/dest'']]\<rparr>)"
proof -
  let ?s = "enter mkdir_fails_env fresh"
  have p: "join ''/tmp/tmpab'' (basename (strip_sep ''/usr/lib/agent'')) = ''/tmp/tmpab/agent''"
    "dirname ''/usr/lib/agent'' = ''/usr/lib''" "basename (strip_sep ''/usr/lib/agent'') = ''agent''"
    "join ''/tmp/tmpab'' ''agent'' = ''/tmp/tmpab/agent''"
    by (simp_all add: join_def basename_def strip_sep_def dirname_def)
  have c: "collect_output ''denied\<newline>'' ''denied\<newline>'' = [text_of ''denied'', text_of ''denied'']"
    by (simp add: text_defs)
  have h: "connected ?s" "mkdtemp mkdir_fails_env (trace ?s) = Inr ''/tmp/tmpab''"
    "make_archive mkdir_fails_env (trace ?s) (join ''/tmp/tmpab'' (basename (strip_sep ''/usr/lib/agent'')))
       (dirname ''/usr/lib/agent'') (basename (strip_sep ''/usr/lib/agent'')) = None"
    "run_with_args mkdir_fails_env
       (trace ?s @ [MakeArchive (join ''/tmp/tmpab'' (basename (strip_sep ''/usr/lib/agent'')))
                      (dirname ''/usr/lib/agent'') (basename (strip_sep ''/usr/lib/agent''))])
       [''mkdir'', ''-p'', dest_dir ?s] = Inl (1, ''denied\<newline>'')"
    "(1::int) \<noteq> 0" "(1::int) \<noteq> 100"
    by (simp_all add: example_defs mkdir_fails_env_def)
  have q: "trace ?s = []" "dest_dir ?s = ''/run/dest''"
    by (simp_all add: example_defs mkdir_fails_env_def)
  from transfer_agent_returns_after_failed_mkdir [OF h, of python]
  show ?thesis unfolding p c q by simp
qed

text \<open>
  C3 as stated fails: after a failed \<open>mkdir\<close> the only command of the transfer is that
  \<open>mkdir\<close>; no copy is started.
\<close>

theorem failed_mkdir_ends_transfer_before_copy:
  "issued (trace (snd (transfer_agent python mkdir_fails_env (enter mkdir_fails_env fresh) ''/usr/lib/agent'')))
     = [RunWithArgs [''mkdir'', ''-p'', ''/run/dest'']]
   \<and> fst (transfer_agent python mkdir_fails_env (enter mkdir_fails_env fresh) ''/usr/lib/agent'')
     = Inr (1, [text_of ''denied'', text_of ''denied''])"
  by (simp add: transfer_agent_def wait_strategy_result example_defs mkdir_fails_env_def join_def basename_def
      strip_sep_def dirname_def text_defs Let_def)

text \<open>The paths of the example transfer.\<close>

lemma agent_paths:
  "basename (strip_sep ''/usr/lib/agent'') = ''agent''"
  "dirname ''/usr/lib/agent'' = ''/usr/lib''"
  "join ''/tmp/tmpab'' ''agent'' = ''/tmp/tmpab/agent''"
  "join ''/tmp/tmpab'' (''agent'' @ ''.tar.gz'') = ''/tmp/tmpab/agent.tar.gz''"
  "join ''/run/dest'' (''agent'' @ ''.tar.gz'') = ''/run/dest/agent.tar.gz''"
  by (simp_all add: path_defs)

text \<open>What the copy step returns, by the outcome of the local copy.\<close>

lemma str_oserror_length: "9 \<le> length (str_oserror exc)"
proof (cases exc)
  case (OSError errno strerror filename)
  then show ?thesis by (cases filename) (simp_all add: text_of_def)
qed

lemma copy_file_from_dom0_result:
  "copy_file_from_dom0 e s src dest =
     (let command = [''qvm-run'', ''--user=root'', ''--pass-io'', qube s, join_space [''cat'', ''>'', dest]]
      in case open_and_popen e (trace s) command src of
           OpenFailed exc \<Rightarrow> ((1, str_oserror exc), s)
         | PopenFailed exc \<Rightarrow> ((1, str_oserror exc), s\<lparr>trace := trace s @ [Popen command src]\<rparr>)
         | Returned ret_code \<Rightarrow>
             ((if ret_code \<noteq> 0 then 1 else 0,
               if ret_code \<noteq> 0 then text_of ''Command returns code: '' @ str_int ret_code else []),
              s\<lparr>trace := trace s @ [Popen command src]\<rparr>))"
  unfolding copy_file_from_dom0_def Let_def emit_def
  by (simp split: copy_outcome.splits)

lemma copy_file_from_dom0_failure:
  assumes "copy_file_from_dom0 e s src dest = ((c, msg), s2)" and "c \<noteq> 0"
  shows "c = 1" and "2 \<le> length msg"
    and "\<forall>command. RunWithArgs command \<notin> set (drop (length (trace s)) (trace s2))"
proof -
  let ?command = "[''qvm-run'', ''--user=root'', ''--pass-io'', qube s, join_space [''cat'', ''>'', dest]]"
  have all: "c = 1 \<and> 2 \<le> length msg
             \<and> (\<forall>command. RunWithArgs command \<notin> set (drop (length (trace s)) (trace s2)))"
  proof (cases "open_and_popen e (trace s) ?command src")
    case (OpenFailed exc)
    with assms str_oserror_length [of exc] show ?thesis
      unfolding copy_file_from_dom0_result Let_def by auto
  next
    case (PopenFailed exc)
    with assms str_oserror_length [of exc] show ?thesis
      unfolding copy_file_from_dom0_result Let_def by auto
  next
    case (Returned ret_code)
    with assms show ?thesis
      unfolding copy_file_from_dom0_result Let_def
      by (auto simp add: text_of_def split: if_splits)
  qed
  from all show "c = 1" by blast
  from all show "2 \<le> length msg" by blast
  from all show "\<forall>command. RunWithArgs command \<notin> set (drop (length (trace s)) (trace s2))" by blast
qed

text \<open>
  C8. When the directory-creation step returned code 0 and the copy step fails,
  \<open>transfer_agent\<close> returns after the copy: the code is \<open>max 0 copy_code\<close>, which is
  1, the output is the output of the directory creation followed by the elements of the
  copy step's output and nothing else, and between the end of the directory creation and
  the return no command is run in the qube, so the archive is not extracted.
\<close>

theorem transfer_agent_short_circuits_on_copy_failure:
  assumes "connected s" and "mkdtemp e (trace s) = Inr arch_dir"
    and "make_archive e (trace s) (join arch_dir (basename (strip_sep src_dir))) (dirname src_dir)
           (basename (strip_sep src_dir)) = None"
    and "run_shell_command_in_qube py e
           (emit (MakeArchive (join arch_dir (basename (strip_sep src_dir))) (dirname src_dir)
                    (basename (strip_sep src_dir))) s)
           [''mkdir'', ''-p'', dest_dir s] False = (Inr (0, output), s1)"
    and "copy_file_from_dom0 e s1 (join arch_dir (basename (strip_sep src_dir) @ ''.tar.gz''))
           (join (dest_dir s) (basename (strip_sep src_dir) @ ''.tar.gz'')) = ((copy_code, msg), s2)"
    and "copy_code \<noteq> 0"
  shows "transfer_agent py e s src_dir = (Inr (max 0 copy_code, output @ map (\<lambda>c. [c]) msg), s2)
         \<and> max 0 copy_code = 1
         \<and> (\<forall>command. RunWithArgs command \<notin> set (drop (length (trace s1)) (trace s2)))"
proof -
  have c: "copy_code = 1"
    and n: "\<forall>command. RunWithArgs command \<notin> set (drop (length (trace s1)) (trace s2))"
    using copy_file_from_dom0_failure [OF assms(5,6)] by blast+
  have "transfer_agent py e s src_dir = (Inr (max 0 copy_code, output @ map (\<lambda>c. [c]) msg), s2)"
    unfolding transfer_agent_after_archive [OF assms(1-4)] assms(5) using c by simp
  with c n show ?thesis by simp
qed


theorem transfer_agent_short_circuits_on_copy_failure_witness:
  "transfer_agent python copy_fails_env (enter copy_fails_env fresh) ''/usr/lib/agent'' =
     (Inr (1, map (\<lambda>c. [c]) (text_of ''Command returns code: 3'')),
      (enter copy_fails_env fresh)
        \<lparr>trace := [MakeArchive ''/tmp/tmpab/agent'' ''/usr/lib'' ''agent'',
                   RunWithArgs [''mkdir'', ''-p'', ''/run/dest''],
                   Popen [''qvm-run'', ''--user=root'', ''--pass-io'', ''vm'', ''cat > /run/dest/agent.tar.gz'']
                     ''/tmp/tmpab/agent.tar.gz'']\<rparr>)"
proof -
  let ?s = "enter copy_fails_env fresh"
  let ?s1 = "?s\<lparr>trace := [MakeArchive ''/tmp/tmpab/agent'' ''/usr/lib'' ''agent'',
                            RunWithArgs [''mkdir'', ''-p'', ''/run/dest'']]\<rparr>"
  let ?s2 = "?s\<lparr>trace := [MakeArchive ''/tmp/tmpab/agent'' ''/usr/lib'' ''agent'',
                   RunWithArgs [''mkdir'', ''-p'', ''/run/dest''],
                   Popen [''qvm-run'', ''--user=root'', ''--pass-io'', ''vm'', ''cat > /run/dest/agent.tar.gz'']
                     ''/tmp/tmpab/agent.tar.gz'']\<rparr>"
  have q: "trace ?s = []" "dest_dir ?s = ''/run/dest''"
    by (simp_all add: example_defs copy_fails_env_def)
  have h1: "connected ?s" "mkdtemp copy_fails_env (trace ?s) = Inr ''/tmp/tmpab''"
    "make_archive copy_fails_env (trace ?s) (join ''/tmp/tmpab'' (basename (strip_sep ''/usr/lib/agent'')))
       (dirname ''/usr/lib/agent'') (basename (strip_sep ''/usr/lib/agent'')) = None"
    by (simp_all add: example_defs copy_fails_env_def)
  have h2: "run_shell_command_in_qube python copy_fails_env
           (emit (MakeArchive (join ''/tmp/tmpab'' (basename (strip_sep ''/usr/lib/agent'')))
                    (dirname ''/usr/lib/agent'') (basename (strip_sep ''/usr/lib/agent''))) ?s)
           [''mkdir'', ''-p'', dest_dir ?s] False = (Inr (0, []), ?s1)"
    unfolding agent_paths
    by (simp add: wait_strategy_result example_defs copy_fails_env_def text_defs)
  have h3: "copy_file_from_dom0 copy_fails_env ?s1
           (join ''/tmp/tmpab'' (basename (strip_sep ''/usr/lib/agent'') @ ''.tar.gz''))
           (join (dest_dir ?s) (basename (strip_sep ''/usr/lib/agent'') @ ''.tar.gz''))
           = ((1, text_of ''Command returns code: 3''), ?s2)"
    unfolding agent_paths q
    by (simp add: copy_file_from_dom0_result example_defs copy_fails_env_def text_of_def str_int_def str_nat.simps)
  have h4: "(1::int) \<noteq> 0" by simp
  from transfer_agent_short_circuits_on_copy_failure [OF h1 h2 h3 h4]
  show ?thesis by simp
qed

text \<open>
  C10. The copy step returns its output as one \<open>str\<close>. When it fails, that string
  is the error message, \<open>str\<close> of the \<open>OSError\<close> or \<open>Command returns code: n\<close>, and
  \<open>transfer_agent\<close> appends one entry per character of it to the output of the
  directory creation: each appended entry has length one, and the message itself is not
  among them.
\<close>

theorem copy_error_message_reaches_caller_as_characters:
  assumes "connected s" and "mkdtemp e (trace s) = Inr arch_dir"
    and "make_archive e (trace s) (join arch_dir (basename (strip_sep src_dir))) (dirname src_dir)
           (basename (strip_sep src_dir)) = None"
    and "run_shell_command_in_qube py e
           (emit (MakeArchive (join arch_dir (basename (strip_sep src_dir))) (dirname src_dir)
                    (basename (strip_sep src_dir))) s)
           [''mkdir'', ''-p'', dest_dir s] False = (Inr (0, output), s1)"
    and "open_and_popen e (trace s1)
           [''qvm-run'', ''--user=root'', ''--pass-io'', qube s1,
            join_space [''cat'', ''>'', join (dest_dir s) (basename (strip_sep src_dir) @ ''.tar.gz'')]]
           (join arch_dir (basename (strip_sep src_dir) @ ''.tar.gz'')) = outcome"
    and "outcome \<noteq> Returned 0"
  shows "(let msg = (case outcome of
                       OpenFailed exc \<Rightarrow> str_oserror exc
                     | PopenFailed exc \<Rightarrow> str_oserror exc
                     | Returned ret_code \<Rightarrow> text_of ''Command returns code: '' @ str_int ret_code)
          in fst (copy_file_from_dom0 e s1 (join arch_dir (basename (strip_sep src_dir) @ ''.tar.gz''))
                    (join (dest_dir s) (basename (strip_sep src_dir) @ ''.tar.gz''))) = (1, msg)
             \<and> fst (transfer_agent py e s src_dir) = Inr (1, output @ map (\<lambda>c. [c]) msg)
             \<and> length (map (\<lambda>c. [c]) msg) = length msg
             \<and> list_all (\<lambda>entry. length entry = 1) (map (\<lambda>c. [c]) msg)
             \<and> msg \<notin> set (map (\<lambda>c. [c]) msg))"
proof -
  define msg where "msg = (case outcome of
                       OpenFailed exc \<Rightarrow> str_oserror exc
                     | PopenFailed exc \<Rightarrow> str_oserror exc
                     | Returned ret_code \<Rightarrow> text_of ''Command returns code: '' @ str_int ret_code)"
  let ?copy = "copy_file_from_dom0 e s1 (join arch_dir (basename (strip_sep src_dir) @ ''.tar.gz''))
                 (join (dest_dir s) (basename (strip_sep src_dir) @ ''.tar.gz''))"
  have f: "fst ?copy = (1, msg)"
    unfolding copy_file_from_dom0_result Let_def assms(5) msg_def
    using assms(6) by (cases outcome) simp_all
  then obtain s2 where c: "?copy = ((1, msg), s2)"
    by (cases ?copy) simp
  have l: "2 \<le> length msg"
    using copy_file_from_dom0_failure(2) [OF c] by simp
  have t: "fst (transfer_agent py e s src_dir) = Inr (1, output @ map (\<lambda>c. [c]) msg)"
    unfolding transfer_agent_after_archive [OF assms(1-4)] c by simp
  have a: "list_all (\<lambda>entry. length entry = 1) (map (\<lambda>c. [c]) msg)"
    by (simp add: list_all_iff)
  have n: "msg \<notin> set (map (\<lambda>c. [c]) msg)"
    using l by auto
  from f t a n show ?thesis
    unfolding msg_def [symmetric] Let_def by simp
qed


theorem copy_error_message_reaches_caller_as_characters_witness:
  "fst (transfer_agent python open_fails_env (enter open_fails_env fresh) ''/usr/lib/agent'') =
     Inr (1, map (\<lambda>c. [c])
               (text_of ''[Errno 2] No such file or directory: '' @ [39]
                @ text_of ''/tmp/tmpab/agent.tar.gz'' @ [39]))"
proof -
  let ?s = "enter open_fails_env fresh"
  let ?s1 = "?s\<lparr>trace := [MakeArchive ''/tmp/tmpab/agent'' ''/usr/lib'' ''agent'',
                            RunWithArgs [''mkdir'', ''-p'', ''/run/dest'']]\<rparr>"
  let ?exc = "OSError 2 (text_of ''No such file or directory'')
                (Some ([39] @ text_of ''/tmp/tmpab/agent.tar.gz'' @ [39]))"
  have h1: "connected ?s" "mkdtemp open_fails_env (trace ?s) = Inr ''/tmp/tmpab''"
    "make_archive open_fails_env (trace ?s) (join ''/tmp/tmpab'' (basename (strip_sep ''/usr/lib/agent'')))
       (dirname ''/usr/lib/agent'') (basename (strip_sep ''/usr/lib/agent'')) = None"
    by (simp_all add: example_defs open_fails_env_def)
  have h2: "run_shell_command_in_qube python open_fails_env
           (emit (MakeArchive (join ''/tmp/tmpab'' (basename (strip_sep ''/usr/lib/agent'')))
                    (dirname ''/usr/lib/agent'') (basename (strip_sep ''/usr/lib/agent''))) ?s)
           [''mkdir'', ''-p'', dest_dir ?s] False = (Inr (0, []), ?s1)"
    unfolding agent_paths
    by (simp add: wait_strategy_result example_defs open_fails_env_def text_defs)
  have h3: "open_and_popen open_fails_env (trace ?s1)
           [''qvm-run'', ''--user=root'', ''--pass-io'', qube ?s1,
            join_space [''cat'', ''>'', join (dest_dir ?s) (basename (strip_sep ''/usr/lib/agent'') @ ''.tar.gz'')]]
           (join ''/tmp/tmpab'' (basename (strip_sep ''/usr/lib/agent'') @ ''.tar.gz'')) = OpenFailed ?exc"
    by (simp add: example_defs open_fails_env_def)
  have h4: "OpenFailed ?exc \<noteq> Returned 0" by simp
  have m: "str_oserror ?exc = text_of ''[Errno 2] No such file or directory: '' @ [39]
                @ text_of ''/tmp/tmpab/agent.tar.gz'' @ [39]"
    by (simp add: text_of_def str_int_def str_nat.simps)
  from copy_error_message_reaches_caller_as_characters [OF h1 h2 h3 h4]
  show ?thesis unfolding Let_def copy_outcome.case m by simp
qed

section \<open>Combination of steps\<close>

lemma combine_simps:
  "combine (c1, l1) (c2, l2) = (max c1 c2, l1 @ l2)"
  by (simp add: combine_def)

lemma run_entrypoint_combines:
  assumes "run_shell_command_in_qube py e s [''chmod'', ''u+x'', entrypoint_path] False = (Inr ra, s1)"
    and "run_shell_command_in_qube py e s1 (entrypoint_path # cli_args) (show_progress s1) = (Inr rb, s2)"
  shows "run_entrypoint py e s entrypoint_path cli_args = (Inr (combine ra rb), s2)"
  unfolding run_entrypoint_def assms(1) using assms(2)
  by (cases ra; cases rb) (simp add: combine_simps)

text \<open>
  C7, as the code has it. The combination of two results has the maximum of the two
  codes and the lines of the first followed by the lines of the second, and it is
  associative; \<open>run_entrypoint\<close> returns the combination of its two steps, and a
  transfer that runs all three steps returns the combination of the three. So a later
  step with code 0 cannot hide an earlier positive code.
\<close>

theorem steps_are_combined_by_max_and_append:
  "fst (combine a b) = max (fst a) (fst b) \<and> snd (combine a b) = snd a @ snd b
   \<and> combine (combine a b) c = combine a (combine b c)
   \<and> (0 < fst a \<longrightarrow> 0 < fst (combine a b))
   \<and> (run_shell_command_in_qube py e s [''chmod'', ''u+x'', entrypoint_path] False = (Inr ra, s1)
        \<and> run_shell_command_in_qube py e s1 (entrypoint_path # cli_args) (show_progress s1) = (Inr rb, s2)
      \<longrightarrow> run_entrypoint py e s entrypoint_path cli_args = (Inr (combine ra rb), s2))
   \<and> (connected t \<and> mkdtemp e (trace t) = Inr arch_dir
        \<and> make_archive e (trace t) (join arch_dir (basename (strip_sep src_dir))) (dirname src_dir)
             (basename (strip_sep src_dir)) = None
        \<and> run_shell_command_in_qube py e
             (emit (MakeArchive (join arch_dir (basename (strip_sep src_dir))) (dirname src_dir)
                      (basename (strip_sep src_dir))) t)
             [''mkdir'', ''-p'', dest_dir t] False = (Inr (0, la), t1)
        \<and> copy_file_from_dom0 e t1 (join arch_dir (basename (strip_sep src_dir) @ ''.tar.gz''))
             (join (dest_dir t) (basename (strip_sep src_dir) @ ''.tar.gz'')) = ((0, lb), t2)
        \<and> run_shell_command_in_qube py e t2
             [''tar'', ''-xzf'', join (dest_dir t) (basename (strip_sep src_dir) @ ''.tar.gz''), ''-C'',
              dest_dir t2] False = (Inr rc, t3)
      \<longrightarrow> transfer_agent py e t src_dir =
            (Inr (combine (0, la) (combine (0, map (\<lambda>x. [x]) lb) rc)), t3))"
proof (intro conjI impI)
  show "fst (combine a b) = max (fst a) (fst b)"
    by (cases a; cases b) (simp add: combine_simps)
  show "snd (combine a b) = snd a @ snd b"
    by (cases a; cases b) (simp add: combine_simps)
  show "combine (combine a b) c = combine a (combine b c)"
    by (cases a; cases b; cases c) (simp add: combine_simps max.assoc)
  show "0 < fst (combine a b)" if "0 < fst a"
    using that by (cases a; cases b) (simp add: combine_simps)
next
  assume "run_shell_command_in_qube py e s [''chmod'', ''u+x'', entrypoint_path] False = (Inr ra, s1)
        \<and> run_shell_command_in_qube py e s1 (entrypoint_path # cli_args) (show_progress s1) = (Inr rb, s2)"
  then show "run_entrypoint py e s entrypoint_path cli_args = (Inr (combine ra rb), s2)"
    using run_entrypoint_combines by blast
next
  assume a: "connected t \<and> mkdtemp e (trace t) = Inr arch_dir
        \<and> make_archive e (trace t) (join arch_dir (basename (strip_sep src_dir))) (dirname src_dir)
             (basename (strip_sep src_dir)) = None
        \<and> run_shell_command_in_qube py e
             (emit (MakeArchive (join arch_dir (basename (strip_sep src_dir))) (dirname src_dir)
                      (basename (strip_sep src_dir))) t)
             [''mkdir'', ''-p'', dest_dir t] False = (Inr (0, la), t1)
        \<and> copy_file_from_dom0 e t1 (join arch_dir (basename (strip_sep src_dir) @ ''.tar.gz''))
             (join (dest_dir t) (basename (strip_sep src_dir) @ ''.tar.gz'')) = ((0, lb), t2)
        \<and> run_shell_command_in_qube py e t2
             [''tar'', ''-xzf'', join (dest_dir t) (basename (strip_sep src_dir) @ ''.tar.gz''), ''-C'',
              dest_dir t2] False = (Inr rc, t3)"
  then have h: "connected t" "mkdtemp e (trace t) = Inr arch_dir"
    "make_archive e (trace t) (join arch_dir (basename (strip_sep src_dir))) (dirname src_dir)
             (basename (strip_sep src_dir)) = None"
    "run_shell_command_in_qube py e
             (emit (MakeArchive (join arch_dir (basename (strip_sep src_dir))) (dirname src_dir)
                      (basename (strip_sep src_dir))) t)
             [''mkdir'', ''-p'', dest_dir t] False = (Inr (0, la), t1)"
    by blast+
  from a have cp: "copy_file_from_dom0 e t1 (join arch_dir (basename (strip_sep src_dir) @ ''.tar.gz''))
             (join (dest_dir t) (basename (strip_sep src_dir) @ ''.tar.gz'')) = ((0, lb), t2)"
    and tar: "run_shell_command_in_qube py e t2
             [''tar'', ''-xzf'', join (dest_dir t) (basename (strip_sep src_dir) @ ''.tar.gz''), ''-C'',
              dest_dir t2] False = (Inr rc, t3)"
    by blast+
  show "transfer_agent py e t src_dir =
            (Inr (combine (0, la) (combine (0, map (\<lambda>x. [x]) lb) rc)), t3)"
    unfolding transfer_agent_after_archive [OF h] cp using tar
    by (cases rc) (simp add: combine_simps)
qed


theorem steps_are_combined_by_max_and_append_witness:
  "combine (combine (2, [text_of ''a'']) (0, [text_of ''b''])) (1, [text_of ''c''])
     = (2, [text_of ''a'', text_of ''b'', text_of ''c''])
   \<and> run_entrypoint python chmod_fails_env (enter chmod_fails_env fresh) ''/run/dest/agent/entrypoint.py'' []
     = (Inr (1, [text_of ''no'', text_of ''no'', text_of ''ok'']),
        (enter chmod_fails_env fresh)
          \<lparr>trace := [RunWithArgs [''chmod'', ''u+x'', ''/run/dest/agent/entrypoint.py''],
                     RunWithArgs [''/run/dest/agent/entrypoint.py'']]\<rparr>)
   \<and> transfer_agent python quiet_env (enter quiet_env fresh) ''/usr/lib/agent''
     = (Inr (0, []),
        (enter quiet_env fresh)
          \<lparr>trace := [MakeArchive ''/tmp/tmpab/agent'' ''/usr/lib'' ''agent'',
                     RunWithArgs [''mkdir'', ''-p'', ''/run/dest''],
                     Popen [''qvm-run'', ''--user=root'', ''--pass-io'', ''vm'', ''cat > /run/dest/agent.tar.gz'']
                       ''/tmp/tmpab/agent.tar.gz'',
                     RunWithArgs [''tar'', ''-xzf'', ''/run/dest/agent.tar.gz'', ''-C'', ''/run/dest'']]\<rparr>)"
proof -
  let ?s = "enter chmod_fails_env fresh"
  let ?s1 = "?s\<lparr>trace := [RunWithArgs [''chmod'', ''u+x'', ''/run/dest/agent/entrypoint.py'']]\<rparr>"
  let ?s2 = "?s\<lparr>trace := [RunWithArgs [''chmod'', ''u+x'', ''/run/dest/agent/entrypoint.py''],
                     RunWithArgs [''/run/dest/agent/entrypoint.py'']]\<rparr>"
  let ?t = "enter quiet_env fresh"
  let ?t1 = "?t\<lparr>trace := [MakeArchive ''/tmp/tmpab/agent'' ''/usr/lib'' ''agent'',
                            RunWithArgs [''mkdir'', ''-p'', ''/run/dest'']]\<rparr>"
  let ?t2 = "?t\<lparr>trace := [MakeArchive ''/tmp/tmpab/agent'' ''/usr/lib'' ''agent'',
                     RunWithArgs [''mkdir'', ''-p'', ''/run/dest''],
                     Popen [''qvm-run'', ''--user=root'', ''--pass-io'', ''vm'', ''cat > /run/dest/agent.tar.gz'']
                       ''/tmp/tmpab/agent.tar.gz'']\<rparr>"
  let ?t3 = "?t\<lparr>trace := [MakeArchive ''/tmp/tmpab/agent'' ''/usr/lib'' ''agent'',
                     RunWithArgs [''mkdir'', ''-p'', ''/run/dest''],
                     Popen [''qvm-run'', ''--user=root'', ''--pass-io'', ''vm'', ''cat > /run/dest/agent.tar.gz'']
                       ''/tmp/tmpab/agent.tar.gz'',
                     RunWithArgs [''tar'', ''-xzf'', ''/run/dest/agent.tar.gz'', ''-C'', ''/run/dest'']]\<rparr>"
  have q: "dest_dir ?t = ''/run/dest''" "dest_dir ?t2 = ''/run/dest''" "trace ?t = []"
    by (simp_all add: example_defs quiet_env_def chmod_fails_env_def)
  have e1: "run_shell_command_in_qube python chmod_fails_env ?s
              [''chmod'', ''u+x'', ''/run/dest/agent/entrypoint.py''] False
            = (Inr (1, [text_of ''no'', text_of ''no'']), ?s1)"
    by (simp add: wait_strategy_result example_defs quiet_env_def chmod_fails_env_def text_defs)
  have e2: "run_shell_command_in_qube python chmod_fails_env ?s1 [''/run/dest/agent/entrypoint.py'']
              (show_progress ?s1)
            = (Inr (0, [text_of ''ok'']), ?s2)"
    by (simp add: wait_strategy_result example_defs quiet_env_def chmod_fails_env_def text_defs)
  have t0: "connected ?t" "mkdtemp quiet_env (trace ?t) = Inr ''/tmp/tmpab''"
    "make_archive quiet_env (trace ?t) (join ''/tmp/tmpab'' (basename (strip_sep ''/usr/lib/agent'')))
       (dirname ''/usr/lib/agent'') (basename (strip_sep ''/usr/lib/agent'')) = None"
    by (simp_all add: example_defs quiet_env_def chmod_fails_env_def)
  have t1: "run_shell_command_in_qube python quiet_env
           (emit (MakeArchive (join ''/tmp/tmpab'' (basename (strip_sep ''/usr/lib/agent'')))
                    (dirname ''/usr/lib/agent'') (basename (strip_sep ''/usr/lib/agent''))) ?t)
           [''mkdir'', ''-p'', dest_dir ?t] False = (Inr (0, []), ?t1)"
    unfolding agent_paths
    by (simp add: wait_strategy_result example_defs quiet_env_def chmod_fails_env_def text_defs)
  have t2: "copy_file_from_dom0 quiet_env ?t1
           (join ''/tmp/tmpab'' (basename (strip_sep ''/usr/lib/agent'') @ ''.tar.gz''))
           (join (dest_dir ?t) (basename (strip_sep ''/usr/lib/agent'') @ ''.tar.gz''))
           = ((0, []), ?t2)"
    unfolding agent_paths q
    by (simp add: copy_file_from_dom0_result example_defs quiet_env_def chmod_fails_env_def)
  have t3: "run_shell_command_in_qube python quiet_env ?t2
             [''tar'', ''-xzf'', join (dest_dir ?t) (basename (strip_sep ''/usr/lib/agent'') @ ''.tar.gz''),
              ''-C'', dest_dir ?t2] False = (Inr (0, []), ?t3)"
    unfolding agent_paths q
    by (simp add: wait_strategy_result example_defs quiet_env_def chmod_fails_env_def text_defs)
  note inst1 = steps_are_combined_by_max_and_append
    [where a = "(2, [text_of ''a''])" and b = "(0, [text_of ''b''])" and c = "(1, [text_of ''c''])"
       and py = python and e = chmod_fails_env and s = "?s" and ra = "(1, [text_of ''no'', text_of ''no''])"
       and ?s1.0 = "?s1" and rb = "(0, [text_of ''ok''])" and ?s2.0 = "?s2"
       and entrypoint_path = "''/run/dest/agent/entrypoint.py''" and cli_args = "[]"]
  note inst2 = steps_are_combined_by_max_and_append
    [where a = "(2, [text_of ''a''])" and b = "(0, [text_of ''b''])" and c = "(1, [text_of ''c''])"
       and py = python and e = quiet_env and t = "?t" and arch_dir = "''/tmp/tmpab''"
       and src_dir = "''/usr/lib/agent''" and la = "[]" and lb = "[]" and rc = "(0, [])"
       and ?t1.0 = "?t1" and ?t2.0 = "?t2" and ?t3.0 = "?t3"]
  have r1: "run_entrypoint python chmod_fails_env ?s ''/run/dest/agent/entrypoint.py'' []
            = (Inr (combine (1, [text_of ''no'', text_of ''no'']) (0, [text_of ''ok''])), ?s2)"
    using inst1 e1 e2 by blast
  have r2: "transfer_agent python quiet_env ?t ''/usr/lib/agent''
            = (Inr (combine (0, []) (combine (0, map (\<lambda>x. [x]) []) (0, []))), ?t3)"
    using inst2 t0 t1 t2 t3 by blast
  have r0: "combine (combine (2, [text_of ''a'']) (0, [text_of ''b''])) (1, [text_of ''c''])
            = combine (2, [text_of ''a'']) (combine (0, [text_of ''b'']) (1, [text_of ''c'']))"
    using inst1 by blast
  show ?thesis
    unfolding r0 r1 r2 by (simp add: combine_simps)
qed

text \<open>
  C7 as stated fails for a negative code: when \<open>chmod\<close> ends with return code \<open>-9\<close>
  and the entrypoint succeeds, \<open>run_entrypoint\<close> returns code 0.
\<close>

theorem later_success_masks_negative_exit_code:
  "run_with_args killed_chmod_env [] [''chmod'', ''u+x'', ''/run/dest/agent/entrypoint.py''] = Inl (- 9, [])
   \<and> fst (run_entrypoint python killed_chmod_env (enter killed_chmod_env fresh)
             ''/run/dest/agent/entrypoint.py'' []) = Inr (0, [])"
  by (simp add: run_entrypoint_def wait_strategy_result example_defs killed_chmod_env_def text_defs)

section \<open>Output of a failed command\<close>

lemma splitlines_from_nonempty: "a \<noteq> [] \<Longrightarrow> splitlines_from cur a \<noteq> []"
  by (induction cur a rule: splitlines_from.induct) simp_all

lemma splitlines_from_prefix:
  "a \<noteq> [] \<Longrightarrow>
   splitlines_from (p @ cur) a = (p @ hd (splitlines_from cur a)) # tl (splitlines_from cur a)"
proof (induction cur a rule: splitlines_from.induct)
  case (1 cur)
  then show ?case by simp
next
  case (2 cur c)
  show ?case by simp
next
  case (3 cur c d cs)
  then show ?case by simp
qed

lemma splitlines_from_append_closed:
  assumes "a \<noteq> []" and "line_boundary (last a)"
    and "\<not> (last a = 0x0d \<and> b \<noteq> [] \<and> hd b = 0x0a)"
  shows "splitlines_from cur (a @ b) = splitlines_from cur a @ splitlines_from [] b"
  using assms
proof (induction cur a rule: splitlines_from.induct)
  case (1 cur)
  then show ?case by simp
next
  case (2 cur c)
  then show ?case by (cases b) auto
next
  case (3 cur c d cs)
  show ?case
  proof (cases cs)
    case Nil
    with 3 show ?thesis by (cases b) auto
  next
    case (Cons x xs)
    with 3 show ?thesis by auto
  qed
qed

lemma splitlines_from_append_cr_lf:
  assumes "a \<noteq> []" and "last a = 0x0d"
  shows "splitlines_from cur (a @ 0x0a # b) = splitlines_from cur a @ splitlines_from [] b"
  using assms
proof (induction cur a rule: splitlines_from.induct)
  case (1 cur)
  then show ?case by simp
next
  case (2 cur c)
  then show ?case by (simp add: line_boundary_def)
next
  case (3 cur c d cs)
  show ?case
  proof (cases cs)
    case Nil
    with 3 show ?thesis by (auto simp add: line_boundary_def)
  next
    case (Cons x xs)
    with 3 show ?thesis by auto
  qed
qed

lemma splitlines_from_append_open:
  assumes "a \<noteq> []" and "\<not> line_boundary (last a)"
  shows "splitlines_from cur (a @ b)
         = butlast (splitlines_from cur a) @ splitlines_from (last (splitlines_from cur a)) b"
  using assms
proof (induction cur a rule: splitlines_from.induct)
  case (1 cur)
  then show ?case by simp
next
  case (2 cur c)
  then show ?case by (cases b) (auto simp add: line_boundary_def)
next
  case (3 cur c d cs)
  show ?case
  proof (cases cs)
    case Nil
    with 3 show ?thesis by (cases b) (auto simp add: line_boundary_def)
  next
    case (Cons x xs)
    with 3 splitlines_from_nonempty [of "x # xs"] show ?thesis
      by (auto simp add: splitlines_from_nonempty)
  qed
qed


lemma splitlines_from_newline:
  "splitlines_from cur (0x0a # b) = cur # splitlines_from [] b"
  by (cases b) (simp_all add: line_boundary_def)

lemma string_sanitization_append:
  "string_sanitization (x @ y) = string_sanitization x @ string_sanitization y"
  by (simp add: string_sanitization_filter)

lemma splitlines_doubled:
  "splitlines (d @ d) =
     (if d = [] then []
      else if \<not> line_boundary (last d)
        then butlast (splitlines d) @ [last (splitlines d) @ hd (splitlines d)] @ tl (splitlines d)
      else if last d = 0x0d \<and> hd d = 0x0a then splitlines d @ tl (splitlines d)
      else splitlines d @ splitlines d)"
proof (cases "d = []")
  case True
  then show ?thesis by (simp add: splitlines_def)
next
  case nonempty: False
  show ?thesis
  proof (cases "line_boundary (last d)")
    case False
    have "splitlines_from [] (d @ d)
          = butlast (splitlines_from [] d) @ splitlines_from (last (splitlines_from [] d) @ []) d"
      using splitlines_from_append_open [OF nonempty False, of "[]" d] by simp
    also have "splitlines_from (last (splitlines_from [] d) @ []) d
          = (last (splitlines_from [] d) @ hd (splitlines_from [] d)) # tl (splitlines_from [] d)"
      using nonempty by (rule splitlines_from_prefix)
    finally show ?thesis
      using nonempty False by (simp add: splitlines_def)
  next
    case True
    show ?thesis
    proof (cases "last d = 0x0d \<and> hd d = 0x0a")
      case False
      then have "\<not> (last d = 0x0d \<and> d \<noteq> [] \<and> hd d = 0x0a)" by simp
      from splitlines_from_append_closed [OF nonempty True this, of "[]"]
      show ?thesis
        using nonempty True False by (auto simp add: splitlines_def)
    next
      case crlf: True
      with nonempty obtain d' where d: "d = 0x0a # d'"
        by (cases d) auto
      have "splitlines_from [] (d @ 0x0a # d') = splitlines_from [] d @ splitlines_from [] d'"
        using nonempty crlf by (simp add: splitlines_from_append_cr_lf)
      moreover have "splitlines_from [] d' = tl (splitlines_from [] d)"
        by (simp add: d splitlines_from_newline)
      ultimately have "splitlines_from [] (d @ d) = splitlines_from [] d @ tl (splitlines_from [] d)"
        using d by simp
      then show ?thesis
        using nonempty True crlf by (simp add: splitlines_def)
    qed
  qed
qed

lemma collect_output_doubled:
  "collect_output out out =
     (let d = decode_ascii_ignore out; lines = collect_output out []
      in if d = [] then []
         else if \<not> line_boundary (last d) then butlast lines @ [last lines @ hd lines] @ tl lines
         else if last d = 0x0d \<and> hd d = 0x0a then lines @ tl lines
         else lines @ lines)"
proof -
  define d where "d = decode_ascii_ignore out"
  have e: "decode_ascii_ignore [] = []"
    by (simp add: decode_ascii_ignore_def)
  have l: "collect_output out [] = map string_sanitization (splitlines d)"
    by (simp add: collect_output_def d_def e)
  have t: "collect_output out out = map string_sanitization (splitlines (d @ d))"
    by (simp add: collect_output_def d_def)
  have n: "splitlines d \<noteq> []" if "d \<noteq> []"
    using that by (simp add: splitlines_def splitlines_from_nonempty)
  show ?thesis
    unfolding Let_def d_def [symmetric] l t splitlines_doubled [of d]
    using n by (simp add: map_butlast last_map hd_map map_tl string_sanitization_append)
qed


text \<open>
  C9, as the code has it. When \<open>run_with_args\<close> fails, whatever the exit code,
  the wait strategy hands the one error payload to \<open>_collect_output\<close> as stdout and
  as stderr, and the lines returned are those of the payload written twice in a row.
  With the lines of the payload alone at hand, and the payload taken after the bytes
  outside ASCII are dropped: an empty payload gives no line; a payload that ends in a
  line boundary gives its lines followed by the same lines again, except that a final CR
  and an initial LF meet as one boundary, so that the empty first line of the second copy
  is missing; a payload that does not end in a line boundary gives its lines twice with
  the last line of the first copy and the first line of the second joined into one.
\<close>

theorem failed_wait_command_returns_payload_twice:
  assumes "run_with_args e (trace s) command = Inl (rc, out)"
  shows "fst (run_command_and_wait_for_output e s command) = (if rc = 100 then 0 else rc, (out, out))
    \<and> fst (run_shell_command_in_qube py e s command False)
        = Inr (if rc = 100 then 0 else rc, collect_output out out)
    \<and> collect_output out out =
        (let d = decode_ascii_ignore out; lines = collect_output out []
         in if d = [] then []
            else if \<not> line_boundary (last d) then butlast lines @ [last lines @ hd lines] @ tl lines
            else if last d = 0x0d \<and> hd d = 0x0a then lines @ tl lines
            else lines @ lines)"
proof (intro conjI)
  show "fst (run_command_and_wait_for_output e s command) = (if rc = 100 then 0 else rc, (out, out))"
    using assms by (simp add: run_command_and_wait_for_output_def)
  show "fst (run_shell_command_in_qube py e s command False)
        = Inr (if rc = 100 then 0 else rc, collect_output out out)"
    using assms by (simp add: wait_strategy_result)
  show "collect_output out out =
        (let d = decode_ascii_ignore out; lines = collect_output out []
         in if d = [] then []
            else if \<not> line_boundary (last d) then butlast lines @ [last lines @ hd lines] @ tl lines
            else if last d = 0x0d \<and> hd d = 0x0a then lines @ tl lines
            else lines @ lines)"
    by (rule collect_output_doubled)
qed

theorem failed_wait_command_returns_payload_twice_witness:
  "fst (run_shell_command_in_qube python mkdir_fails_env fresh [''mkdir'', ''-p'', ''/run/dest''] False)
     = Inr (1, [text_of ''denied'', text_of ''denied''])
   \<and> collect_output ''denied\<newline>'' [] = [text_of ''denied'']
   \<and> fst (run_shell_command_in_qube python cr_lf_env fresh [''mkdir'', ''-p'', ''/run/dest''] False)
     = Inr (1, [[], text_of ''b'', text_of ''b''])
   \<and> collect_output [CHR 0x0A, CHR ''b'', CHR 0x0D] [] = [[], text_of ''b'']"
proof -
  have h1: "run_with_args mkdir_fails_env (trace fresh) [''mkdir'', ''-p'', ''/run/dest'']
            = Inl (1, ''denied\<newline>'')"
    by (simp add: example_defs mkdir_fails_env_def)
  have h2: "run_with_args cr_lf_env (trace fresh) [''mkdir'', ''-p'', ''/run/dest'']
            = Inl (1, [CHR 0x0A, CHR ''b'', CHR 0x0D])"
    by (simp add: example_defs cr_lf_env_def)
  have d1: "decode_ascii_ignore ''denied\<newline>'' = text_of ''denied'' @ [0x0a]"
    by (simp add: decode_ascii_ignore_def text_of_def)
  have d2: "decode_ascii_ignore [CHR 0x0A, CHR ''b'', CHR 0x0D] = [0x0a, 98, 0x0d]"
    by (simp add: decode_ascii_ignore_def)
  have c1: "collect_output ''denied\<newline>'' [] = [text_of ''denied'']"
    by (simp add: text_defs)
  have c2: "collect_output [CHR 0x0A, CHR ''b'', CHR 0x0D] [] = [[], text_of ''b'']"
    by (simp add: text_defs)
  note inst1 = failed_wait_command_returns_payload_twice [OF h1, of python]
  note inst2 = failed_wait_command_returns_payload_twice [OF h2, of python]
  from inst1 have a1: "fst (run_shell_command_in_qube python mkdir_fails_env fresh
                            [''mkdir'', ''-p'', ''/run/dest''] False)
                     = Inr (if (1::int) = 100 then 0 else 1, collect_output ''denied\<newline>'' ''denied\<newline>'')"
    by blast
  from inst1 have "collect_output ''denied\<newline>'' ''denied\<newline>'' =
        (let d = decode_ascii_ignore ''denied\<newline>''; lines = collect_output ''denied\<newline>'' []
         in if d = [] then []
            else if \<not> line_boundary (last d) then butlast lines @ [last lines @ hd lines] @ tl lines
            else if last d = 0x0d \<and> hd d = 0x0a then lines @ tl lines
            else lines @ lines)"
    by blast
  then have b1: "collect_output ''denied\<newline>'' ''denied\<newline>'' = [text_of ''denied'', text_of ''denied'']"
    unfolding Let_def d1 c1 by (simp add: line_boundary_def text_of_def)
  from inst2 have a2: "fst (run_shell_command_in_qube python cr_lf_env fresh
                            [''mkdir'', ''-p'', ''/run/dest''] False)
                     = Inr (if (1::int) = 100 then 0 else 1,
                            collect_output [CHR 0x0A, CHR ''b'', CHR 0x0D] [CHR 0x0A, CHR ''b'', CHR 0x0D])"
    by blast
  from inst2 have "collect_output [CHR 0x0A, CHR ''b'', CHR 0x0D] [CHR 0x0A, CHR ''b'', CHR 0x0D] =
        (let d = decode_ascii_ignore [CHR 0x0A, CHR ''b'', CHR 0x0D];
             lines = collect_output [CHR 0x0A, CHR ''b'', CHR 0x0D] []
         in if d = [] then []
            else if \<not> line_boundary (last d) then butlast lines @ [last lines @ hd lines] @ tl lines
            else if last d = 0x0d \<and> hd d = 0x0a then lines @ tl lines
            else lines @ lines)"
    by blast
  then have b2: "collect_output [CHR 0x0A, CHR ''b'', CHR 0x0D] [CHR 0x0A, CHR ''b'', CHR 0x0D]
                 = [[], text_of ''b'', text_of ''b'']"
    unfolding Let_def d2 c2 by (simp add: line_boundary_def)
  show ?thesis unfolding a1 a2 b1 b2 c1 c2 by simp
qed

text \<open>
  C9 as stated fails for a payload that does not end in a line boundary: its last line
  and the first line of the second copy come out as one line, so the payload \<open>err\<close>
  gives the single line \<open>errerr\<close>, and the line \<open>err\<close> is not returned at all.
\<close>

theorem unterminated_payload_lines_are_joined:
  "fst (run_shell_command_in_qube python unterminated_env fresh [''mkdir'', ''-p'', ''/run/dest''] False)
     = Inr (1, [text_of ''errerr''])
   \<and> collect_output ''err'' [] = [text_of ''err'']"
  by (simp add: wait_strategy_result example_defs unterminated_env_def text_defs)


section \<open>Progress on the diagnostic channel\<close>

lemma collect_stderr_loop_latched:
  "collect_stderr_loop py ls stderr True s = (Inr (stderr @ concat (takeWhile (\<lambda>l. l \<noteq> []) ls)), s)"
  by (induction ls arbitrary: stderr) simp_all

lemma collect_stderr_loop_before_latch:
  assumes "\<forall>l \<in> set pre. l \<noteq> [] \<and> decode py l \<noteq> None
                          \<and> (\<forall>p. parsed_progress py l = Some p \<longrightarrow> \<not> eq100 py p)"
  shows "collect_stderr_loop py (pre @ rest) stderr False s =
           collect_stderr_loop py rest (stderr @ concat [l \<leftarrow> pre. parsed_progress py l = None]) False
             (s\<lparr>trace := trace s @ map (\<lambda>p. Put (StatusInfo_pending (qube s) p))
                                        (List.map_filter (parsed_progress py) pre)\<rparr>)"
  using assms
proof (induction pre arbitrary: stderr s)
  case Nil
  show ?case by (simp add: List.map_filter_simps)
next
  case (Cons l pre)
  from Cons.prems obtain d where d: "decode py l = Some d" and ne: "l \<noteq> []"
    by auto
  from Cons.prems have rest: "\<forall>l \<in> set pre. l \<noteq> [] \<and> decode py l \<noteq> None
                          \<and> (\<forall>p. parsed_progress py l = Some p \<longrightarrow> \<not> eq100 py p)"
    by simp
  show ?case
  proof (cases "float py (string_sanitization (rstrip py d))")
    case None
    then have pp: "parsed_progress py l = None"
      by (simp add: parsed_progress_def d)
    show ?thesis
      using Cons.IH [OF rest, of "stderr @ l" s] ne d None pp
      by (simp add: List.map_filter_simps)
  next
    case (Some p)
    then have pp: "parsed_progress py l = Some p"
      by (simp add: parsed_progress_def d)
    with Cons.prems have n: "\<not> eq100 py p"
      by simp
    show ?thesis
      using Cons.IH [OF rest, of stderr "put (StatusInfo_pending (qube s) p) s"] ne d Some pp n
      by (simp add: List.map_filter_simps put_def emit_def)
  qed
qed

text \<open>
  What the loop does as long as every line before the latch is non-empty and valid
  UTF-8: each of them that parses as a float is put as a Pending event, in input order,
  and is not appended to the buffer; each of them that does not parse is appended. The
  first line whose value equals 100.0 is put as a Pending event too and sets the latch:
  every later line up to the end of the stream is appended as it is, whether it looks
  like a number or not, and no further event is put.
\<close>

lemma collect_stderr_classifies_until_latch:
  assumes "\<forall>l \<in> set pre. l \<noteq> [] \<and> decode py l \<noteq> None
                          \<and> (\<forall>p. parsed_progress py l = Some p \<longrightarrow> \<not> eq100 py p)"
  shows "(proc_stderr p = pre \<longrightarrow>
            collect_stderr py s p =
              (Inr (concat [l \<leftarrow> pre. parsed_progress py l = None]),
               s\<lparr>trace := trace s @ map (\<lambda>x. Put (StatusInfo_pending (qube s) x))
                                          (List.map_filter (parsed_progress py) pre)\<rparr>))
       \<and> (proc_stderr p = pre @ full # post \<and> full \<noteq> []
            \<and> parsed_progress py full = Some hundred \<and> eq100 py hundred \<longrightarrow>
            collect_stderr py s p =
              (Inr (concat [l \<leftarrow> pre. parsed_progress py l = None]
                    @ concat (takeWhile (\<lambda>l. l \<noteq> []) post)),
               s\<lparr>trace := trace s @ map (\<lambda>x. Put (StatusInfo_pending (qube s) x))
                                          (List.map_filter (parsed_progress py) pre @ [hundred])\<rparr>))"
proof (intro conjI impI)
  assume "proc_stderr p = pre"
  then show "collect_stderr py s p =
              (Inr (concat [l \<leftarrow> pre. parsed_progress py l = None]),
               s\<lparr>trace := trace s @ map (\<lambda>x. Put (StatusInfo_pending (qube s) x))
                                          (List.map_filter (parsed_progress py) pre)\<rparr>)"
    using collect_stderr_loop_before_latch [OF assms, of "[]" "[]" s]
    by (simp add: collect_stderr_def)
next
  assume a: "proc_stderr p = pre @ full # post \<and> full \<noteq> []
            \<and> parsed_progress py full = Some hundred \<and> eq100 py hundred"
  let ?s' = "s\<lparr>trace := trace s @ map (\<lambda>x. Put (StatusInfo_pending (qube s) x))
                                    (List.map_filter (parsed_progress py) pre)\<rparr>"
  let ?b = "concat [l \<leftarrow> pre. parsed_progress py l = None]"
  from a obtain d where d: "decode py full = Some d"
    and f: "float py (string_sanitization (rstrip py d)) = Some hundred"
    by (auto simp add: parsed_progress_def split: option.splits)
  have "collect_stderr_loop py (full # post) ?b False ?s'
        = collect_stderr_loop py post ?b True (put (StatusInfo_pending (qube ?s') hundred) ?s')"
    using a d f by simp
  also have "\<dots> = (Inr (?b @ concat (takeWhile (\<lambda>l. l \<noteq> []) post)),
                   put (StatusInfo_pending (qube ?s') hundred) ?s')"
    by (rule collect_stderr_loop_latched)
  finally have "collect_stderr_loop py (full # post) ?b False ?s'
        = (Inr (?b @ concat (takeWhile (\<lambda>l. l \<noteq> []) post)),
           put (StatusInfo_pending (qube ?s') hundred) ?s')" .
  with a show "collect_stderr py s p =
              (Inr (concat [l \<leftarrow> pre. parsed_progress py l = None]
                    @ concat (takeWhile (\<lambda>l. l \<noteq> []) post)),
               s\<lparr>trace := trace s @ map (\<lambda>x. Put (StatusInfo_pending (qube s) x))
                                          (List.map_filter (parsed_progress py) pre @ [hundred])\<rparr>)"
    using collect_stderr_loop_before_latch [OF assms, of "full # post" "[]" s]
    by (simp add: collect_stderr_def put_def emit_def)
qed


lemma example_progress:
  "parsed_progress python ''12.5\<newline>'' = Some (25 / 2)"
  "parsed_progress python ''50.0\<newline>'' = Some 50"
  "parsed_progress python ''building...\<newline>'' = None"
  "parsed_progress python ''100.0\<newline>'' = Some 100"
  by (simp_all add: parsed_progress_def python_def float_defs string_sanitization_def)

lemma collect_stderr_classifies_until_latch_example:
  "collect_stderr python fresh progress_proc =
     (Inr ''building...\<newline>99.0\<newline>done\<newline>'',
      fresh\<lparr>trace := [Put (StatusInfo_pending ''vm'' (25 / 2)), Put (StatusInfo_pending ''vm'' 50),
                       Put (StatusInfo_pending ''vm'' 100)]\<rparr>)
   \<and> collect_stderr python fresh unfinished_proc =
     (Inr ''building...\<newline>'',
      fresh\<lparr>trace := [Put (StatusInfo_pending ''vm'' (25 / 2)), Put (StatusInfo_pending ''vm'' 50)]\<rparr>)"
proof -
  let ?pre = "[''12.5\<newline>'', ''50.0\<newline>'', ''building...\<newline>'']"
  have h: "\<forall>l \<in> set ?pre. l \<noteq> [] \<and> decode python l \<noteq> None
                          \<and> (\<forall>p. parsed_progress python l = Some p \<longrightarrow> \<not> eq100 python p)"
    by (simp add: parsed_progress_def python_def float_defs string_sanitization_def)
  have a: "proc_stderr progress_proc = ?pre @ ''100.0\<newline>'' # [''99.0\<newline>'', ''done\<newline>'']
           \<and> ''100.0\<newline>'' \<noteq> [] \<and> parsed_progress python ''100.0\<newline>'' = Some 100 \<and> eq100 python 100"
    by (simp add: example_progress progress_proc_def) (simp add: python_def)
  have b: "proc_stderr unfinished_proc = ?pre"
    by (simp add: unfinished_proc_def)
  have q: "qube fresh = ''vm''" "trace fresh = []"
    by (simp_all add: fresh_def init_def)
  have m: "List.map_filter (parsed_progress python) ?pre = [25 / 2, 50]"
    by (simp add: List.map_filter_simps example_progress)
  have f: "[l \<leftarrow> ?pre. parsed_progress python l = None] = [''building...\<newline>'']"
    by (simp add: example_progress)
  note inst1 = collect_stderr_classifies_until_latch
    [OF h, where p = progress_proc and full = "''100.0\<newline>''" and post = "[''99.0\<newline>'', ''done\<newline>'']"
       and hundred = 100 and s = fresh]
  note inst2 = collect_stderr_classifies_until_latch
    [OF h, where p = unfinished_proc and s = fresh]
  from inst1 a have r1: "collect_stderr python fresh progress_proc =
              (Inr (concat [l \<leftarrow> ?pre. parsed_progress python l = None]
                    @ concat (takeWhile (\<lambda>l. l \<noteq> []) [''99.0\<newline>'', ''done\<newline>''])),
               fresh\<lparr>trace := trace fresh @ map (\<lambda>x. Put (StatusInfo_pending (qube fresh) x))
                                          (List.map_filter (parsed_progress python) ?pre @ [100])\<rparr>)"
    by blast
  from inst2 b have r2: "collect_stderr python fresh unfinished_proc =
              (Inr (concat [l \<leftarrow> ?pre. parsed_progress python l = None]),
               fresh\<lparr>trace := trace fresh @ map (\<lambda>x. Put (StatusInfo_pending (qube fresh) x))
                                          (List.map_filter (parsed_progress python) ?pre)\<rparr>)"
    by blast
  show ?thesis
    unfolding r1 r2 m f q by simp
qed

text \<open>
  C5. In live-streaming mode a diagnostic line that parses as a float before the
  latch is forwarded as a Pending event and not appended to the buffer, a line that does
  not parse as a float is appended to the buffer, and after a value equal to 100.0 every
  line is appended as it is. The code breaks the second part on a line that is not valid
  UTF-8. Such a line does not parse as a float, but it is not appended: \<open>decode()\<close>
  stands before the \<open>try\<close> whose \<open>except ValueError\<close> appends the lines that
  \<open>float\<close> refuses, so \<open>UnicodeDecodeError\<close> leaves \<open>_collect_stderr\<close> and no
  buffer is returned, where \<open>_collect_output\<close> decodes with \<open>errors='ignore'\<close>.
\<close>

theorem undecodable_line_is_not_appended:
  "parsed_progress python [CHR 0xFF, CHR 0x0A] = None
   \<and> collect_stderr python fresh hostile_proc = (Inl UnicodeDecodeError, fresh)"
  by (simp add: parsed_progress_def collect_stderr_def hostile_proc_def python_def decode_utf8_def)

end
